theory Spec2Isabelle
  imports Complex_Main "HOL-Library.AList" "HOL-Library.Sublist"
begin

section \<open>Scene state translation: values, objects and collaborators\<close>

text \<open>
  The embedded file is
  \<^verbatim>\<open>packages/shared/apis/SceneStateStorageController/StorableSceneStateTranslation.ts\<close>.

  Component payloads are typed \<^verbatim>\<open>any\<close> in the source. They are modelled as JavaScript
  objects: a list of own properties in insertion order, each holding a value. Reading a
  property that is not there gives \<^verbatim>\<open>undefined\<close>; writing a property replaces the value
  in place when the key exists and appends the key otherwise. Numbers stand for the decimal
  value of their literal, strings are lists of characters.
\<close>

datatype jsval =
    JUndefined
  | JNull
  | JBool bool
  | JNum real
  | JStr string
  | JObj "(string \<times> jsval) list"

type_synonym payload = "(string \<times> jsval) list"

definition hasOwnProperty :: "payload \<Rightarrow> string \<Rightarrow> bool" where
  "hasOwnProperty obj k = (map_of obj k \<noteq> None)"

definition get_prop :: "payload \<Rightarrow> string \<Rightarrow> jsval" where
  "get_prop obj k = (case map_of obj k of None \<Rightarrow> JUndefined | Some v \<Rightarrow> v)"

definition set_prop :: "string \<Rightarrow> jsval \<Rightarrow> payload \<Rightarrow> payload" where
  "set_prop k v obj = AList.update k v obj"

datatype error = TypeError | CatalogFailure

subsection \<open>The storable snapshot codec\<close>

text \<open>
  \<^verbatim>\<open>SerializedSceneState\<close> is \<^verbatim>\<open>{ entities: [{ id, components: [{ type, value }] }] }\<close> with
  numeric type codes; the storable form carries the human readable type and a schema
  version. The Type-Code Bridge (\<^verbatim>\<open>toHumanReadableType\<close>, \<^verbatim>\<open>fromHumanReadableType\<close>) lives in
  \<^verbatim>\<open>./utils\<close> and is taken as a pair of parameters.
\<close>

record SerializedComponent =
  sc_type :: int
  sc_value :: jsval

record SerializedEntity =
  se_id :: string
  se_components :: "SerializedComponent list"

record SerializedSceneState =
  ss_entities :: "SerializedEntity list"

record StorableComponent =
  stc_type :: string
  stc_value :: jsval

record StorableEntity =
  ste_id :: string
  ste_components :: "StorableComponent list"

record StorableSceneState =
  schemaVersion :: int
  st_entities :: "StorableEntity list"

definition CURRENT_SCHEMA_VERSION :: int where
  "CURRENT_SCHEMA_VERSION = 1"

definition fromSerializedStateToStorableFormat ::
  "(int \<Rightarrow> string) \<Rightarrow> SerializedSceneState \<Rightarrow> StorableSceneState" where
  "fromSerializedStateToStorableFormat toHumanReadableType state =
     \<lparr> schemaVersion = CURRENT_SCHEMA_VERSION,
       st_entities =
         map (\<lambda>e. \<lparr> ste_id = se_id e,
                    ste_components =
                      map (\<lambda>c. \<lparr> stc_type = toHumanReadableType (sc_type c),
                                 stc_value = sc_value c \<rparr>)
                          (se_components e) \<rparr>)
             (ss_entities state) \<rparr>"

definition fromStorableFormatToSerializedState ::
  "(string \<Rightarrow> int) \<Rightarrow> StorableSceneState \<Rightarrow> SerializedSceneState" where
  "fromStorableFormatToSerializedState fromHumanReadableType state =
     \<lparr> ss_entities =
         map (\<lambda>e. \<lparr> se_id = ste_id e,
                    se_components =
                      map (\<lambda>c. \<lparr> sc_type = fromHumanReadableType (stc_type c),
                                 sc_value = stc_value c \<rparr>)
                          (ste_components e) \<rparr>)
             (st_entities state) \<rparr>"

definition types_of :: "SerializedSceneState \<Rightarrow> int set" where
  "types_of state = (\<Union>e \<in> set (ss_entities state). sc_type ` set (se_components e))"

section \<open>String helpers of the host language\<close>

text \<open>
  \<^verbatim>\<open>'nft' + (nftCount + 1)\<close> renders a number in decimal.
\<close>

fun string_of_nat :: "nat \<Rightarrow> string" where
  "string_of_nat n =
     (if n < 10 then [char_of (48 + n)]
      else string_of_nat (n div 10) @ [char_of (48 + n mod 10)])"

declare string_of_nat.simps [simp del]

text \<open>
  \<^verbatim>\<open>s.replaceAll(pat, rep)\<close> with a string pattern: occurrences are replaced from left to
  right without overlap; the empty pattern matches before every character and at the end.
\<close>

function replaceAll :: "string \<Rightarrow> string \<Rightarrow> string \<Rightarrow> string" where
  "replaceAll s pat rep =
     (if pat = [] then rep @ concat (map (\<lambda>c. c # rep) s)
      else if s = [] then []
      else if prefix pat s then rep @ replaceAll (drop (length pat) s) pat rep
      else hd s # replaceAll (tl s) pat rep)"
  by pat_completeness auto
termination
  by (relation "measure (\<lambda>(s, pat, rep). length s)") auto

declare replaceAll.simps [simp del]

text \<open>\<^verbatim>\<open>s.indexOf(pat)\<close>: the first position where \<^verbatim>\<open>pat\<close> starts, or -1.\<close>

fun indexOf_from :: "nat \<Rightarrow> string \<Rightarrow> string \<Rightarrow> int" where
  "indexOf_from i [] pat = (if pat = [] then int i else - 1)"
| "indexOf_from i (c # cs) pat =
     (if prefix pat (c # cs) then int i else indexOf_from (Suc i) cs pat)"

definition indexOf :: "string \<Rightarrow> string \<Rightarrow> int" where
  "indexOf s pat = indexOf_from 0 s pat"

text \<open>
  \<^verbatim>\<open>s.slice(start)\<close>: a negative start counts from the end, and the start is clamped to
  the string.
\<close>

definition slice :: "string \<Rightarrow> int \<Rightarrow> string" where
  "slice s start =
     (let len = int (length s);
          from = (if start < 0 then max (len + start) 0 else min start len)
      in drop (nat from) s)"

section \<open>The editor manifest and the internal graph\<close>

text \<open>
  The types of \<^verbatim>\<open>./types\<close>, with the fields the translators read and write. The source
  uses the field names \<^verbatim>\<open>id\<close>, \<^verbatim>\<open>name\<close>, \<^verbatim>\<open>components\<close>, \<^verbatim>\<open>type\<close> and \<^verbatim>\<open>data\<close> in several
  types; here each carries a prefix for its type.
\<close>

record BuilderEntity =
  be_id :: string
  be_components :: "string list"
  disableGizmos :: bool
  be_name :: string

record BuilderComponent =
  bc_id :: string
  bc_type :: string
  bc_data :: payload

record BuilderAsset =
  asset_name :: string
  category :: string

record BuilderGround =
  ground_assetId :: string
  ground_componentId :: string

text \<open>
  A \<^verbatim>\<open>Record<string, T>\<close> is the list of its entries in iteration order; its keys are
  distinct. \<^verbatim>\<open>Object.values\<close> is \<^term>\<open>map snd\<close>, \<^verbatim>\<open>Object.keys\<close> is \<^term>\<open>map fst\<close>,
  and \<^verbatim>\<open>r[k] = v\<close> is \<^const>\<open>AList.update\<close>: an existing key keeps its place, a new
  key goes last. (JavaScript iterates keys that are array indices first; entity, component
  and asset ids are not.) The manifest's \<^verbatim>\<open>ground\<close> may be absent.
\<close>

record BuilderScene =
  scene_id :: string
  scene_entities :: "(string \<times> BuilderEntity) list"
  scene_components :: "(string \<times> BuilderComponent) list"
  scene_assets :: "(string \<times> BuilderAsset) list"
  metrics :: jsval
  limits :: jsval
  ground :: "BuilderGround option"

record BuilderManifest =
  manifest_version :: jsval
  manifest_project :: jsval
  manifest_scene :: BuilderScene

text \<open>
  The internal graph is read through \<^verbatim>\<open>scene.getState().entries()\<close>: entities in
  iteration order, each with the entries of its component map (type code and payload).
  It is written through \<^verbatim>\<open>addEntity(id, components)\<close>; the graph built by the reverse
  translation is the sequence of these calls.
\<close>

type_synonym SceneState = "(string \<times> (int \<times> payload) list) list"

record Component =
  componentId :: int
  component_data :: payload

type_synonym SceneStateDefinition = "(string \<times> Component list) list"

text \<open>
  The collaborators of the translators. \<^verbatim>\<open>uuid\<close> is the sequence of identifiers it
  returns, call after call. \<^verbatim>\<open>getAssets\<close> is the awaited catalog request; a rejected request
  is an error. \<^verbatim>\<open>camelize\<close>, \<^verbatim>\<open>getUniqueNameForGLTF\<close> and the type-code bridge come from
  \<^verbatim>\<open>./utils\<close>, \<^verbatim>\<open>CLASS_ID.NAME\<close> from the ECS library.

  The bridge, the naming helpers and the transformer are functions that always return; an
  exception raised inside them is outside this file.

  The two methods of \<^verbatim>\<open>SceneTransformTranslator\<close> receive a component and return one, as
  values: the payload they are given is the payload at the time of the call. Whether the
  component they return shares its payload object with the one they were given is not part
  of this file, so a write that the translators make to a payload after the call is
  recorded in the input it belongs to and not in the transformer's result.
\<close>

record collaborators =
  uuid :: "nat \<Rightarrow> string"
  toHumanReadableType :: "int \<Rightarrow> string"
  fromHumanReadableType :: "string \<Rightarrow> int"
  camelize :: "string \<Rightarrow> string"
  getUniqueNameForGLTF :: "string list \<Rightarrow> string \<Rightarrow> nat \<Rightarrow> string"
  getAssets :: "jsval list \<Rightarrow> error + (string \<times> BuilderAsset) list"
  transformBuilderComponent :: "BuilderComponent \<Rightarrow> BuilderComponent"
  transformStateDefinitionComponent :: "Component \<Rightarrow> Component"
  CLASS_ID_NAME :: int

section \<open>Forward translation: internal graph to editor manifest\<close>

text \<open>
  The local variables of \<^verbatim>\<open>toBuilderFromStateDefinitionFormat\<close> during its entity loop.
  \<^verbatim>\<open>minted\<close> counts the calls of \<^verbatim>\<open>uuid\<close> made so far.
\<close>

record translation =
  minted :: nat
  nftCount :: nat
  gltfNames :: "string list"
  entities :: "(string \<times> BuilderEntity) list"
  builderComponents :: "(string \<times> BuilderComponent) list"
  entityName :: string
  builderComponentsIds :: "string list"

text \<open>The NFTShape branch (lines 62 to 71): the name and the counter it leaves.\<close>

definition nft_entityName :: "nat \<Rightarrow> string" where
  "nft_entityName count =
     (if count \<ge> 1 then ''nft'' @ string_of_nat (count + 1) else ''nft'')"

definition nft_nextCount :: "nat \<Rightarrow> nat" where
  "nft_nextCount count = (if count \<ge> 1 then count else count + 1)"

text \<open>
  The GLTFShape branch (lines 75 to 80): every asset of the reply assigns the name, so the
  last one decides; an empty reply leaves the name as it is.
\<close>

definition gltf_entityName ::
  "collaborators \<Rightarrow> string list \<Rightarrow> (string \<times> BuilderAsset) list \<Rightarrow> string \<Rightarrow> string" where
  "gltf_entityName env names assets name0 =
     fold (\<lambda>kv _. getUniqueNameForGLTF env names (camelize env (asset_name (snd kv))) 1)
       assets name0"

text \<open>
  One iteration of the component loop (lines 54 to 89). It returns the new locals and the
  component with its payload as the iteration leaves it in the graph.
\<close>

definition translate_component ::
  "collaborators \<Rightarrow> translation \<Rightarrow> int \<times> payload \<Rightarrow> error + (translation \<times> (int \<times> payload))" where
  "translate_component env st component =
     (let newId = uuid env (minted st);
          componentType = toHumanReadableType env (fst component);
          ids = builderComponentsIds st @ [newId];
          nft = (componentType = ''NFTShape'');
          data1 = (if nft then set_prop ''url'' (get_prop (snd component) ''src'') (snd component)
                   else snd component);
          name1 = (if nft then nft_entityName (nftCount st) else entityName st);
          count1 = (if nft then nft_nextCount (nftCount st) else nftCount st);
          named = (if componentType = ''GLTFShape''
                   then (case getAssets env [get_prop data1 ''assetId''] of
                           Inl e \<Rightarrow> Inl e
                         | Inr assets \<Rightarrow> Inr (gltf_entityName env (gltfNames st) assets name1))
                   else Inr name1)
      in case named of
           Inl e \<Rightarrow> Inl e
         | Inr name2 \<Rightarrow>
             (let builderComponent =
                    transformBuilderComponent env
                      \<lparr> bc_id = newId, bc_type = componentType, bc_data = data1 \<rparr>
              in Inr (st \<lparr> minted := Suc (minted st),
                           nftCount := count1,
                           entityName := name2,
                           builderComponentsIds := ids,
                           builderComponents :=
                             AList.update (bc_id builderComponent) builderComponent
                               (builderComponents st) \<rparr>,
                      (fst component, data1))))"

fun translate_components ::
  "collaborators \<Rightarrow> translation \<Rightarrow> (int \<times> payload) list
     \<Rightarrow> error + (translation \<times> (int \<times> payload) list)" where
  "translate_components env st [] = Inr (st, [])"
| "translate_components env st (c # cs) =
     (case translate_component env st c of
        Inl e \<Rightarrow> Inl e
      | Inr (st1, c1) \<Rightarrow>
          (case translate_components env st1 cs of
             Inl e \<Rightarrow> Inl e
           | Inr (st2, cs1) \<Rightarrow> Inr (st2, c1 # cs1)))"

text \<open>The pass over the entity's components that writes the builder name (lines 92 to 96).\<close>

definition assign_builderValue ::
  "collaborators \<Rightarrow> string \<Rightarrow> (int \<times> payload) list \<Rightarrow> (int \<times> payload) list" where
  "assign_builderValue env name mapped =
     map (\<lambda>c. if fst c = fromHumanReadableType env ''Name''
              then (fst c, set_prop ''builderValue'' (JStr name) (snd c))
              else c) mapped"

text \<open>One iteration of the entity loop (lines 47 to 108).\<close>

definition translate_entity ::
  "collaborators \<Rightarrow> translation \<Rightarrow> string \<times> (int \<times> payload) list
     \<Rightarrow> error + (translation \<times> (string \<times> (int \<times> payload) list))" where
  "translate_entity env st entity =
     (case translate_components env
             (st \<lparr> entityName := fst entity, builderComponentsIds := [] \<rparr>) (snd entity) of
        Inl e \<Rightarrow> Inl e
      | Inr (st1, mapped) \<Rightarrow>
          (let builderEntity =
                 \<lparr> be_id = fst entity,
                   be_components = builderComponentsIds st1,
                   disableGizmos = False,
                   be_name = entityName st1 \<rparr>
           in Inr (st1 \<lparr> gltfNames := gltfNames st1 @ [entityName st1],
                         entities :=
                           AList.update (be_id builderEntity) builderEntity (entities st1) \<rparr>,
                   (fst entity, assign_builderValue env (entityName st1) mapped))))"

fun translate_entities ::
  "collaborators \<Rightarrow> translation \<Rightarrow> SceneState \<Rightarrow> error + (translation \<times> SceneState)" where
  "translate_entities env st [] = Inr (st, [])"
| "translate_entities env st (e # es) =
     (case translate_entity env st e of
        Inl err \<Rightarrow> Inl err
      | Inr (st1, e1) \<Rightarrow>
          (case translate_entities env st1 es of
             Inl err \<Rightarrow> Inl err
           | Inr (st2, es1) \<Rightarrow> Inr (st2, e1 # es1)))"

definition initial_translation :: translation where
  "initial_translation =
     \<lparr> minted = 0, nftCount = 0, gltfNames = [], entities = [], builderComponents = [],
       entityName = [], builderComponentsIds = [] \<rparr>"



subsection \<open>Asset reconciliation (lines 124 to 160)\<close>

definition gltf_references :: "(string \<times> BuilderComponent) list \<Rightarrow> string \<Rightarrow> bool" where
  "gltf_references comps key =
     (\<exists>c \<in> set (map snd comps).
        bc_type c = ''GLTFShape'' \<and> get_prop (bc_data c) ''assetId'' = JStr key)"

definition idArray ::
  "(string \<times> BuilderComponent) list \<Rightarrow> (string \<times> BuilderAsset) list \<Rightarrow> jsval list" where
  "idArray comps assets =
     map (\<lambda>c. get_prop (bc_data c) ''assetId'')
       (filter (\<lambda>c. bc_type c = ''GLTFShape'' \<and>
                    \<not> (\<exists>k \<in> set (map fst assets). JStr k = get_prop (bc_data c) ''assetId''))
          (map snd comps))"

definition merge_assets ::
  "(string \<times> BuilderAsset) list \<Rightarrow> (string \<times> BuilderAsset) list \<Rightarrow> (string \<times> BuilderAsset) list" where
  "merge_assets newAssets assets = fold (\<lambda>kv acc. AList.update (fst kv) (snd kv) acc) newAssets assets"

definition remove_unused_assets ::
  "(string \<times> BuilderComponent) list \<Rightarrow> (string \<times> BuilderAsset) list \<Rightarrow> (string \<times> BuilderAsset) list" where
  "remove_unused_assets comps assets =
     fold (\<lambda>kv newRecords.
             if gltf_references comps (fst kv) then AList.update (fst kv) (snd kv) newRecords
             else newRecords)
       assets []"

text \<open>
  The \<^verbatim>\<open>data.assetId\<close> values of the GLTFShape components of a component table.
\<close>

definition referenced_assetIds :: "(string \<times> BuilderComponent) list \<Rightarrow> jsval set" where
  "referenced_assetIds comps =
     set (map (\<lambda>c. get_prop (bc_data c) ''assetId'')
            (filter (\<lambda>c. bc_type c = ''GLTFShape'') (map snd comps)))"

subsection \<open>Ground detection and gizmos (lines 162 to 184)\<close>

text \<open>
  The inner scan over the component table for one ground asset: every component whose
  \<^verbatim>\<open>data.assetId\<close> is the asset's key overwrites \<^verbatim>\<open>ground.componentId\<close> and
  \<^verbatim>\<open>groundComponentId\<close>.
\<close>

definition scan_ground_component ::
  "(string \<times> BuilderComponent) list \<Rightarrow> string \<Rightarrow> BuilderGround \<times> string option
     \<Rightarrow> BuilderGround \<times> string option" where
  "scan_ground_component comps assetId start =
     fold (\<lambda>kc acc.
             if get_prop (bc_data (snd kc)) ''assetId'' = JStr assetId
             then ((fst acc) \<lparr> ground_componentId := fst kc \<rparr>, Some (fst kc))
             else acc)
       comps start"

text \<open>
  The scan over the asset table. Writing \<^verbatim>\<open>ground.assetId\<close> when the manifest has no
  ground object raises a TypeError.
\<close>

fun detect_ground ::
  "(string \<times> BuilderComponent) list \<Rightarrow> (string \<times> BuilderAsset) list
     \<Rightarrow> BuilderGround option \<times> string option
     \<Rightarrow> error + (BuilderGround option \<times> string option)" where
  "detect_ground comps [] acc = Inr acc"
| "detect_ground comps (a # as) acc =
     (if category (snd a) = ''ground''
      then (case fst acc of
              None \<Rightarrow> Inl TypeError
            | Some g \<Rightarrow>
                (let r = scan_ground_component comps (fst a)
                           (g \<lparr> ground_assetId := fst a \<rparr>, snd acc)
                 in detect_ground comps as (Some (fst r), snd r)))
      else detect_ground comps as acc)"

definition disable_ground_gizmos ::
  "string option \<Rightarrow> (string \<times> BuilderEntity) list \<Rightarrow> (string \<times> BuilderEntity) list" where
  "disable_ground_gizmos groundComponentId ents =
     map (\<lambda>ke. (fst ke,
                if \<exists>componentId \<in> set (be_components (snd ke)). Some componentId = groundComponentId
                then (snd ke) \<lparr> disableGizmos := True \<rparr>
                else snd ke))
       ents"

subsection \<open>The forward translator\<close>

text \<open>
  The result is the graph as the translation leaves it (the loops assign to the payload
  objects of the graph) and the manifest it returns, which is the supplied manifest object
  with its scene replaced (line 121). A rejected catalog request or a TypeError ends the
  translation with the error.
\<close>

definition toBuilderFromStateDefinitionFormat ::
  "collaborators \<Rightarrow> SceneState \<Rightarrow> BuilderManifest \<Rightarrow> error + (SceneState \<times> BuilderManifest)" where
  "toBuilderFromStateDefinitionFormat env scene builderManifest =
     (case translate_entities env initial_translation scene of
        Inl e \<Rightarrow> Inl e
      | Inr (st, scene1) \<Rightarrow>
          (let old = manifest_scene builderManifest;
               comps = builderComponents st
           in case getAssets env (idArray comps (scene_assets old)) of
                Inl e \<Rightarrow> Inl e
              | Inr newAssets \<Rightarrow>
                  (let newRecords =
                         remove_unused_assets comps (merge_assets newAssets (scene_assets old))
                   in case detect_ground comps newRecords (ground old, None) of
                        Inl e \<Rightarrow> Inl e
                      | Inr found \<Rightarrow>
                          Inr (scene1,
                               builderManifest
                                 \<lparr> manifest_scene :=
                                     \<lparr> scene_id = scene_id old,
                                       scene_entities =
                                         disable_ground_gizmos (snd found) (entities st),
                                       scene_components = comps,
                                       scene_assets = newRecords,
                                       metrics = metrics old,
                                       limits = limits old,
                                       ground = fst found \<rparr> \<rparr>))))"




section \<open>Reverse translation: editor manifest to internal graph\<close>

text \<open>
  The NFTShape compatibility shim (lines 205 to 221), applied to a payload without
  \<^verbatim>\<open>src\<close>. Calling \<^verbatim>\<open>replaceAll\<close> on a \<^verbatim>\<open>url\<close> that is not a string raises a TypeError.
\<close>

definition nft_assetId :: "string \<Rightarrow> string" where
  "nft_assetId url =
     (let newAssetId = replaceAll url ''ethereum://'' [];
          index = indexOf newAssetId ''/'';
          partToRemove = slice newAssetId index
      in replaceAll newAssetId partToRemove [])"

definition default_color :: jsval where
  "default_color =
     JObj [(''r'', JNum 0.6404918), (''g'', JNum 0.611472), (''b'', JNum 0.8584906),
           (''a'', JNum 1)]"

definition nft_shim :: "payload \<Rightarrow> error + payload" where
  "nft_shim componentData =
     (case get_prop componentData ''url'' of
        JStr url \<Rightarrow>
          Inr (set_prop ''style'' (JNum 0)
                (set_prop ''color'' default_color
                  (set_prop ''assetId'' (JStr (nft_assetId url))
                    (set_prop ''src'' (JStr url) componentData))))
      | _ \<Rightarrow> Inl TypeError)"

text \<open>
  One iteration of the loop over the ids an entity lists (lines 199 to 229). It returns the
  component table as the iteration leaves it (the shim writes into the component's
  payload) and the component to push, if any.
\<close>

definition convert_component ::
  "collaborators \<Rightarrow> (string \<times> BuilderComponent) list \<Rightarrow> string
     \<Rightarrow> error + ((string \<times> BuilderComponent) list \<times> Component option)" where
  "convert_component env comps cid =
     (case map_of comps cid of
        None \<Rightarrow> Inr (comps, None)
      | Some builderComponent \<Rightarrow>
          (let componentData = bc_data builderComponent
           in if \<not> hasOwnProperty componentData ''src'' \<and> bc_type builderComponent = ''NFTShape''
              then (case nft_shim componentData of
                      Inl e \<Rightarrow> Inl e
                    | Inr shimmed \<Rightarrow>
                        Inr (AList.update cid (builderComponent \<lparr> bc_data := shimmed \<rparr>) comps,
                             Some (transformStateDefinitionComponent env
                                     \<lparr> componentId =
                                         fromHumanReadableType env (bc_type builderComponent),
                                       component_data = shimmed \<rparr>)))
              else Inr (comps,
                        Some (transformStateDefinitionComponent env
                                \<lparr> componentId =
                                    fromHumanReadableType env (bc_type builderComponent),
                                  component_data = componentData \<rparr>))))"

fun convert_components ::
  "collaborators \<Rightarrow> (string \<times> BuilderComponent) list \<Rightarrow> string list
     \<Rightarrow> error + ((string \<times> BuilderComponent) list \<times> Component list)" where
  "convert_components env comps [] = Inr (comps, [])"
| "convert_components env comps (cid # cids) =
     (case convert_component env comps cid of
        Inl e \<Rightarrow> Inl e
      | Inr (comps1, pushed) \<Rightarrow>
          (case convert_components env comps1 cids of
             Inl e \<Rightarrow> Inl e
           | Inr (comps2, rest) \<Rightarrow>
               Inr (comps2, (case pushed of None \<Rightarrow> rest | Some c \<Rightarrow> c # rest))))"

text \<open>
  The search for the Name component (lines 232 to 241): the first component with the Name
  type code gets the two writes and ends the loop. The result tells whether one was found.
\<close>

fun assign_name :: "int \<Rightarrow> string \<Rightarrow> Component list \<Rightarrow> bool \<times> Component list" where
  "assign_name name_code name [] = (False, [])"
| "assign_name name_code name (c # cs) =
     (if componentId c = name_code
      then (True,
            c \<lparr> component_data :=
                  set_prop ''builderValue'' (JStr name)
                    (set_prop ''value'' (get_prop (component_data c) ''value'')
                       (component_data c)) \<rparr> # cs)
      else (let r = assign_name name_code name cs in (fst r, c # snd r)))"

definition CreateStatelessNameComponent ::
  "collaborators \<Rightarrow> string \<Rightarrow> string \<Rightarrow> Component" where
  "CreateStatelessNameComponent env name builderName =
     transformStateDefinitionComponent env
       \<lparr> componentId = CLASS_ID_NAME env,
         component_data = [(''value'', JStr name), (''builderValue'', JStr builderName)] \<rparr>"

text \<open>The component list handed to \<^verbatim>\<open>addEntity\<close> for an entity (lines 232 to 242).\<close>

definition name_components ::
  "collaborators \<Rightarrow> string \<Rightarrow> Component list \<Rightarrow> Component list" where
  "name_components env name components =
     (let r = assign_name (CLASS_ID_NAME env) name components
      in if fst r then snd r
         else snd r @ [CreateStatelessNameComponent env name name])"

text \<open>One iteration of the entity loop (lines 197 to 245).\<close>

definition convert_entity ::
  "collaborators \<Rightarrow> (string \<times> BuilderComponent) list \<Rightarrow> BuilderEntity
     \<Rightarrow> error + ((string \<times> BuilderComponent) list \<times> (string \<times> Component list))" where
  "convert_entity env comps entity =
     (case convert_components env comps (be_components entity) of
        Inl e \<Rightarrow> Inl e
      | Inr (comps1, components) \<Rightarrow>
          Inr (comps1, (be_id entity, name_components env (be_name entity) components)))"

fun convert_entities ::
  "collaborators \<Rightarrow> (string \<times> BuilderComponent) list \<Rightarrow> BuilderEntity list
     \<Rightarrow> error + ((string \<times> BuilderComponent) list \<times> SceneStateDefinition)" where
  "convert_entities env comps [] = Inr (comps, [])"
| "convert_entities env comps (e # es) =
     (case convert_entity env comps e of
        Inl err \<Rightarrow> Inl err
      | Inr (comps1, added) \<Rightarrow>
          (case convert_entities env comps1 es of
             Inl err \<Rightarrow> Inl err
           | Inr (comps2, rest) \<Rightarrow> Inr (comps2, added # rest)))"

text \<open>
  The result is the manifest scene as the translation leaves it and the graph it returns.
\<close>

definition fromBuildertoStateDefinitionFormat ::
  "collaborators \<Rightarrow> BuilderScene \<Rightarrow> error + (BuilderScene \<times> SceneStateDefinition)" where
  "fromBuildertoStateDefinitionFormat env scene =
     (case convert_entities env (scene_components scene) (map snd (scene_entities scene)) of
        Inl e \<Rightarrow> Inl e
      | Inr (comps, sceneState) \<Rightarrow> Inr (scene \<lparr> scene_components := comps \<rparr>, sceneState))"




text \<open>
  The payloads the shim can read: every NFTShape component without \<^verbatim>\<open>src\<close> has a string
  \<^verbatim>\<open>url\<close>.
\<close>

definition shim_ready :: "(string \<times> BuilderComponent) list \<Rightarrow> bool" where
  "shim_ready comps =
     (\<forall>kc \<in> set comps.
        bc_type (snd kc) = ''NFTShape'' \<and> \<not> hasOwnProperty (bc_data (snd kc)) ''src''
          \<longrightarrow> (\<exists>url. get_prop (bc_data (snd kc)) ''url'' = JStr url))"

text \<open>
  The object literal that \<^verbatim>\<open>CreateStatelessNameComponent\<close> hands to the transformer
  (lines 254 to 261).
\<close>

definition name_component :: "int \<Rightarrow> string \<Rightarrow> Component" where
  "name_component code name =
     \<lparr> componentId = code,
       component_data = [(''value'', JStr name), (''builderValue'', JStr name)] \<rparr>"

text \<open>
  The scene with every listed component id that is not a key of the component table taken
  out of the entities' lists.
\<close>

definition drop_dangling_ids :: "string list \<Rightarrow> BuilderEntity \<Rightarrow> BuilderEntity" where
  "drop_dangling_ids keys entity =
     entity \<lparr> be_components := filter (\<lambda>cid. cid \<in> set keys) (be_components entity) \<rparr>"

definition without_dangling :: "BuilderScene \<Rightarrow> BuilderScene" where
  "without_dangling scene =
     scene \<lparr> scene_entities :=
       map (\<lambda>ke. (fst ke, drop_dangling_ids (map fst (scene_components scene)) (snd ke)))
         (scene_entities scene) \<rparr>"

subsection \<open>The reverse translator over shared payload objects\<close>
















text \<open>
  The relations between the component table of the manifest before and during a reverse
  translation. A payload is as before up to the two properties of the Name search. The shim
  applies to an NFTShape component without \<^verbatim>\<open>src\<close>. An entry keeps its id and type, and its
  payload is the former payload or, for a visited key to which the shim applied, what the
  shim made of it, each up to the two properties of the Name search; a visited NFTShape
  entry has a \<^verbatim>\<open>src\<close>. A table has the keys it had, in their order, with every entry so
  related to the former one.
\<close>

definition name_written :: "payload \<Rightarrow> payload \<Rightarrow> bool" where
  "name_written before after =
     (\<forall>p. p \<noteq> ''value'' \<and> p \<noteq> ''builderValue'' \<longrightarrow> map_of after p = map_of before p)"

definition shim_applies :: "BuilderComponent \<Rightarrow> bool" where
  "shim_applies bc = (bc_type bc = ''NFTShape'' \<and> \<not> hasOwnProperty (bc_data bc) ''src'')"

definition entry_progress ::
  "string set \<Rightarrow> string \<Rightarrow> BuilderComponent \<Rightarrow> BuilderComponent \<Rightarrow> bool" where
  "entry_progress visited k bc0 bc =
     (bc_id bc = bc_id bc0 \<and> bc_type bc = bc_type bc0 \<and>
      (name_written (bc_data bc0) (bc_data bc) \<or>
       k \<in> visited \<and> shim_applies bc0 \<and>
       (\<exists>shimmed. nft_shim (bc_data bc0) = Inr shimmed \<and> name_written shimmed (bc_data bc))) \<and>
      (k \<in> visited \<and> bc_type bc0 = ''NFTShape'' \<longrightarrow> hasOwnProperty (bc_data bc) ''src''))"

definition table_progress ::
  "string set \<Rightarrow> (string \<times> BuilderComponent) list \<Rightarrow> (string \<times> BuilderComponent) list \<Rightarrow> bool" where
  "table_progress visited comps0 comps =
     (map fst comps = map fst comps0 \<and>
      (\<forall>k bc0. map_of comps0 k = Some bc0 \<longrightarrow>
         (\<exists>bc. map_of comps k = Some bc \<and> entry_progress visited k bc0 bc)))"




section \<open>The naming helpers of \<^verbatim>\<open>./utils\<close>\<close>

text \<open>
  \<^verbatim>\<open>camelize\<close> and \<^verbatim>\<open>getUniqueNameForGLTF\<close> are imported from \<^verbatim>\<open>./utils\<close>. The translators
  take them as collaborators; the two definitions below give them the behaviour the
  specification describes, for the naming properties that depend on it.
\<close>

definition to_lower :: "char \<Rightarrow> char" where
  "to_lower c =
     (if 65 \<le> (of_char c :: nat) \<and> (of_char c :: nat) \<le> 90 then char_of (of_char c + 32 :: nat)
      else c)"

definition to_upper :: "char \<Rightarrow> char" where
  "to_upper c =
     (if 97 \<le> (of_char c :: nat) \<and> (of_char c :: nat) \<le> 122 then char_of (of_char c - 32 :: nat)
      else c)"

fun camel_words :: "bool \<Rightarrow> string \<Rightarrow> string" where
  "camel_words up [] = []"
| "camel_words up (c # cs) =
     (if c = CHR '' '' then camel_words True cs
      else (if up then to_upper c else c) # camel_words False cs)"

text \<open>
  Modelled from the spec: \<^verbatim>\<open>camelize\<close> of \<^verbatim>\<open>./utils\<close> is missing. The specification says
  the entity name is derived from the asset's catalog name "by camel-casing it": the words
  are joined, every word after the first starts with a capital and the result starts with
  a small letter.
\<close>

definition camelize_spec :: "string \<Rightarrow> string" where
  "camelize_spec s = (case camel_words False s of [] \<Rightarrow> [] | c # cs \<Rightarrow> to_lower c # cs)"

text \<open>The name with the suffix \<^verbatim>\<open>k\<close>; the suffix 1 is the bare name (tree, tree2, tree3).\<close>

definition suffixed_name :: "string \<Rightarrow> nat \<Rightarrow> string" where
  "suffixed_name base k = (if k = 1 then base else base @ string_of_nat k)"

lemma string_of_nat_nonempty: "string_of_nat n \<noteq> []"
  by (subst string_of_nat.simps) simp

lemma digit_inj:
  assumes "a < 10" and "b < 10"
    and "(char_of (48 + a :: nat) :: char) = char_of (48 + b)"
  shows "a = b"
proof -
  from assms(3) have "(of_char (char_of (48 + a) :: char) :: nat) = of_char (char_of (48 + b) :: char)"
    by simp
  with assms(1,2) show ?thesis by (simp add: of_char_of)
qed

lemma string_of_nat_inj: "string_of_nat m = string_of_nat n \<Longrightarrow> m = n"
proof (induction m arbitrary: n rule: string_of_nat.induct)
  case (1 m)
  show ?case
  proof (cases "m < 10")
    case True
    with "1.prems" have eq: "[char_of (48 + m)] = string_of_nat n"
      by (subst (asm) string_of_nat.simps) simp
    show ?thesis
    proof (cases "n < 10")
      case nt: True
      with eq have "(char_of (48 + m) :: char) = char_of (48 + n)"
        by (subst (asm) string_of_nat.simps) simp
      with True nt show ?thesis by (rule digit_inj)
    next
      case False
      with eq have "[char_of (48 + m)] = string_of_nat (n div 10) @ [char_of (48 + n mod 10)]"
        by (subst (asm) string_of_nat.simps) simp
      then have "string_of_nat (n div 10) = []" by simp
      then show ?thesis by (simp add: string_of_nat_nonempty)
    qed
  next
    case False
    with "1.prems" have eq: "string_of_nat (m div 10) @ [char_of (48 + m mod 10)] = string_of_nat n"
      by (subst (asm) string_of_nat.simps) simp
    show ?thesis
    proof (cases "n < 10")
      case True
      with eq have "string_of_nat (m div 10) @ [char_of (48 + m mod 10)] = [char_of (48 + n)]"
        by (subst (asm) (2) string_of_nat.simps) simp
      then have "string_of_nat (m div 10) = []" by simp
      then show ?thesis by (simp add: string_of_nat_nonempty)
    next
      case nf: False
      with eq have "string_of_nat (m div 10) @ [char_of (48 + m mod 10)]
                    = string_of_nat (n div 10) @ [char_of (48 + n mod 10)]"
        by (subst (asm) (2) string_of_nat.simps) simp
      then have a: "string_of_nat (m div 10) = string_of_nat (n div 10)"
        and b: "(char_of (48 + m mod 10) :: char) = char_of (48 + n mod 10)" by simp_all
      from "1.IH"[OF False a] have d: "m div 10 = n div 10" .
      have "m mod 10 = n mod 10" by (rule digit_inj[OF _ _ b]) simp_all
      with d show ?thesis by (metis div_mult_mod_eq)
    qed
  qed
qed

lemma suffixed_name_inj: "suffixed_name base j = suffixed_name base k \<Longrightarrow> j = k"
  by (auto simp: suffixed_name_def string_of_nat_nonempty split: if_splits
           dest: string_of_nat_inj)

lemma finite_used_suffixes: "finite {j. k \<le> j \<and> suffixed_name base j \<in> set names}"
proof -
  have "inj (suffixed_name base)"
    by (rule injI) (rule suffixed_name_inj)
  then have "finite (suffixed_name base -` set names)"
    by (intro finite_vimageI) simp_all
  moreover have "{j. k \<le> j \<and> suffixed_name base j \<in> set names} \<subseteq> suffixed_name base -` set names"
    by auto
  ultimately show ?thesis by (rule rev_finite_subset)
qed

text \<open>
  Modelled from the spec: \<^verbatim>\<open>getUniqueNameForGLTF\<close> of \<^verbatim>\<open>./utils\<close> is missing. The
  specification says the name is made unique against the names assigned so far "by
  appending a numeric suffix starting at the lowest unused integer \<ge>1 (e.g. tree, tree2,
  tree3)": the suffixes are tried in turn, from the one given, until the name is unused.
\<close>

function getUniqueNameForGLTF_spec :: "string list \<Rightarrow> string \<Rightarrow> nat \<Rightarrow> string" where
  "getUniqueNameForGLTF_spec names base k =
     (if suffixed_name base k \<in> set names then getUniqueNameForGLTF_spec names base (Suc k)
      else suffixed_name base k)"
  by pat_completeness auto
termination
proof (relation "measure (\<lambda>(names, base, k). card {j. k \<le> j \<and> suffixed_name base j \<in> set names})")
  show "wf (measure (\<lambda>(names, base, k). card {j. k \<le> j \<and> suffixed_name base j \<in> set names}))"
    by simp
next
  fix names :: "string list" and base :: string and k :: nat
  assume used: "suffixed_name base k \<in> set names"
  have "k \<in> {j. k \<le> j \<and> suffixed_name base j \<in> set names}"
    and "k \<notin> {j. Suc k \<le> j \<and> suffixed_name base j \<in> set names}"
    using used by simp_all
  moreover have "{j. Suc k \<le> j \<and> suffixed_name base j \<in> set names}
          \<subseteq> {j. k \<le> j \<and> suffixed_name base j \<in> set names}"
    by auto
  ultimately have "{j. Suc k \<le> j \<and> suffixed_name base j \<in> set names}
          \<subset> {j. k \<le> j \<and> suffixed_name base j \<in> set names}"
    by blast
  then have "card {j. Suc k \<le> j \<and> suffixed_name base j \<in> set names}
               < card {j. k \<le> j \<and> suffixed_name base j \<in> set names}"
    by (intro psubset_card_mono finite_used_suffixes)
  then show "((names, base, Suc k), (names, base, k))
               \<in> measure (\<lambda>(names, base, k). card {j. k \<le> j \<and> suffixed_name base j \<in> set names})"
    by simp
qed

declare getUniqueNameForGLTF_spec.simps [simp del]

section \<open>Example collaborators and scenes\<close>

text \<open>
  A small bridge, catalog and identifier source on which the translators can be run. The
  transformer passes components through unchanged.
\<close>

definition example_toHumanReadableType :: "int \<Rightarrow> string" where
  "example_toHumanReadableType c =
     (if c = 1 then ''Transform'' else if c = 2 then ''GLTFShape''
      else if c = 3 then ''NFTShape'' else if c = 4 then ''Name''
      else if c = 5 then ''Script'' else ''Unknown'')"

definition example_fromHumanReadableType :: "string \<Rightarrow> int" where
  "example_fromHumanReadableType t =
     (if t = ''Transform'' then 1 else if t = ''GLTFShape'' then 2
      else if t = ''NFTShape'' then 3 else if t = ''Name'' then 4
      else if t = ''Script'' then 5 else 0)"

definition example_catalog :: "(string \<times> BuilderAsset) list" where
  "example_catalog =
     [(''a1'', \<lparr> asset_name = ''Tree'', category = ''decorations'' \<rparr>),
      (''g1'', \<lparr> asset_name = ''Grass Floor'', category = ''ground'' \<rparr>)]"

definition example_env :: collaborators where
  "example_env =
     \<lparr> uuid = (\<lambda>n. ''c'' @ string_of_nat n),
       toHumanReadableType = example_toHumanReadableType,
       fromHumanReadableType = example_fromHumanReadableType,
       camelize = camelize_spec,
       getUniqueNameForGLTF = getUniqueNameForGLTF_spec,
       getAssets = (\<lambda>ids. Inr (filter (\<lambda>kv. JStr (fst kv) \<in> set ids) example_catalog)),
       transformBuilderComponent = (\<lambda>c. c),
       transformStateDefinitionComponent = (\<lambda>c. c),
       CLASS_ID_NAME = 4 \<rparr>"

definition example_manifest :: BuilderManifest where
  "example_manifest =
     \<lparr> manifest_version = JNum 10,
       manifest_project = JNull,
       manifest_scene =
         \<lparr> scene_id = ''scene'',
           scene_entities = [],
           scene_components = [],
           scene_assets = [],
           metrics = JNull,
           limits = JNull,
           ground = Some \<lparr> ground_assetId = [], ground_componentId = [] \<rparr> \<rparr> \<rparr>"

definition three_nft_scene :: SceneState where
  "three_nft_scene =
     [(''E1'', [(3, [(''src'', JStr ''ethereum://0x1/1'')])]),
      (''E2'', [(3, [(''src'', JStr ''ethereum://0x1/2'')])]),
      (''E3'', [(3, [(''src'', JStr ''ethereum://0x1/3'')])])]"

definition two_tree_scene :: SceneState where
  "two_tree_scene =
     [(''E1'', [(2, [(''assetId'', JStr ''a1'')])]),
      (''E2'', [(2, [(''assetId'', JStr ''a1'')])])]"

definition example_nft_component :: BuilderComponent where
  "example_nft_component =
     \<lparr> bc_id = ''c0'', bc_type = ''NFTShape'',
       bc_data = [(''url'', JStr ''ethereum://0xabc/12'')] \<rparr>"

definition malformed_nft_component :: BuilderComponent where
  "malformed_nft_component =
     \<lparr> bc_id = ''c0'', bc_type = ''NFTShape'', bc_data = [(''url'', JStr ''ethereum://abca'')] \<rparr>"

definition malformed_nft_scene :: BuilderScene where
  "malformed_nft_scene =
     \<lparr> scene_id = ''scene'',
       scene_entities =
         [(''E1'', \<lparr> be_id = ''E1'', be_components = [''c0''], disableGizmos = False,
                    be_name = ''Spawn1'' \<rparr>)],
       scene_components = [(''c0'', malformed_nft_component)],
       scene_assets = [],
       metrics = JNull,
       limits = JNull,
       ground = None \<rparr>"

definition dangling_scene :: BuilderScene where
  "dangling_scene =
     \<lparr> scene_id = ''scene'',
       scene_entities =
         [(''E1'', \<lparr> be_id = ''E1'', be_components = [''c9'', ''c0'', ''c7''], disableGizmos = False,
                    be_name = ''Spawn1'' \<rparr>)],
       scene_components = [(''c0'', example_nft_component)],
       scene_assets = [],
       metrics = JNull,
       limits = JNull,
       ground = None \<rparr>"

definition spawn_table :: "(string \<times> BuilderComponent) list" where
  "spawn_table =
     [(''c0'', \<lparr> bc_id = ''c0'', bc_type = ''Transform'', bc_data = [(''x'', JNum 1)] \<rparr>),
      (''c1'', \<lparr> bc_id = ''c1'', bc_type = ''Name'', bc_data = [(''value'', JStr ''door'')] \<rparr>)]"

definition spawn_entity :: BuilderEntity where
  "spawn_entity =
     \<lparr> be_id = ''E1'', be_components = [''c0''], disableGizmos = False, be_name = ''Spawn1'' \<rparr>"

definition door_entity :: BuilderEntity where
  "door_entity =
     \<lparr> be_id = ''E2'', be_components = [''c0'', ''c1''], disableGizmos = False, be_name = ''Door2'' \<rparr>"

definition silent_catalog_env :: collaborators where
  "silent_catalog_env = example_env \<lparr> getAssets := (\<lambda>ids. Inr []) \<rparr>"

definition one_tree_scene :: SceneState where
  "one_tree_scene = [(''E1'', [(2, [(''assetId'', JStr ''a1'')])])]"

definition two_tree_components :: "(string \<times> BuilderComponent) list" where
  "two_tree_components =
     [(''c0'', \<lparr> bc_id = ''c0'', bc_type = ''GLTFShape'', bc_data = [(''assetId'', JStr ''a1'')] \<rparr>),
      (''c1'', \<lparr> bc_id = ''c1'', bc_type = ''GLTFShape'', bc_data = [(''assetId'', JStr ''a1'')] \<rparr>)]"

definition two_tree_result :: BuilderManifest where
  "two_tree_result =
     example_manifest \<lparr> manifest_scene :=
        \<lparr> scene_id = ''scene'',
          scene_entities =
            [(''E1'', \<lparr> be_id = ''E1'', be_components = [''c0''], disableGizmos = False,
                       be_name = ''tree'' \<rparr>),
             (''E2'', \<lparr> be_id = ''E2'', be_components = [''c1''], disableGizmos = False,
                       be_name = ''tree2'' \<rparr>)],
          scene_components = two_tree_components,
          scene_assets = [(''a1'', \<lparr> asset_name = ''Tree'', category = ''decorations'' \<rparr>)],
          metrics = JNull, limits = JNull,
          ground = Some \<lparr> ground_assetId = [], ground_componentId = [] \<rparr> \<rparr> \<rparr>"

definition ground_scene :: SceneState where
  "ground_scene =
     [(''E1'', [(2, [(''assetId'', JStr ''g1'')])]),
      (''E2'', [(2, [(''assetId'', JStr ''a1'')])])]"

definition ground_result :: BuilderManifest where
  "ground_result =
     example_manifest \<lparr> manifest_scene :=
        \<lparr> scene_id = ''scene'',
          scene_entities =
            [(''E1'', \<lparr> be_id = ''E1'', be_components = [''c0''], disableGizmos = True,
                       be_name = ''grassFloor'' \<rparr>),
             (''E2'', \<lparr> be_id = ''E2'', be_components = [''c1''], disableGizmos = False,
                       be_name = ''tree'' \<rparr>)],
          scene_components =
            [(''c0'', \<lparr> bc_id = ''c0'', bc_type = ''GLTFShape'', bc_data = [(''assetId'', JStr ''g1'')] \<rparr>),
             (''c1'', \<lparr> bc_id = ''c1'', bc_type = ''GLTFShape'', bc_data = [(''assetId'', JStr ''a1'')] \<rparr>)],
          scene_assets =
            [(''a1'', \<lparr> asset_name = ''Tree'', category = ''decorations'' \<rparr>),
             (''g1'', \<lparr> asset_name = ''Grass Floor'', category = ''ground'' \<rparr>)],
          metrics = JNull, limits = JNull,
          ground = Some \<lparr> ground_assetId = ''g1'', ground_componentId = ''c0'' \<rparr> \<rparr> \<rparr>"

definition shared_ground_scene :: SceneState where
  "shared_ground_scene =
     [(''E1'', [(2, [(''assetId'', JStr ''g1'')])]),
      (''E2'', [(5, [(''assetId'', JStr ''g1'')])])]"

definition shared_ground_result :: BuilderManifest where
  "shared_ground_result =
     example_manifest \<lparr> manifest_scene :=
        \<lparr> scene_id = ''scene'',
          scene_entities =
            [(''E1'', \<lparr> be_id = ''E1'', be_components = [''c0''], disableGizmos = False,
                       be_name = ''grassFloor'' \<rparr>),
             (''E2'', \<lparr> be_id = ''E2'', be_components = [''c1''], disableGizmos = True,
                       be_name = ''E2'' \<rparr>)],
          scene_components =
            [(''c0'', \<lparr> bc_id = ''c0'', bc_type = ''GLTFShape'', bc_data = [(''assetId'', JStr ''g1'')] \<rparr>),
             (''c1'', \<lparr> bc_id = ''c1'', bc_type = ''Script'', bc_data = [(''assetId'', JStr ''g1'')] \<rparr>)],
          scene_assets = [(''g1'', \<lparr> asset_name = ''Grass Floor'', category = ''ground'' \<rparr>)],
          metrics = JNull, limits = JNull,
          ground = Some \<lparr> ground_assetId = ''g1'', ground_componentId = ''c1'' \<rparr> \<rparr> \<rparr>"

definition second_tree_start :: translation where
  "second_tree_start =
     \<lparr> minted = 1, nftCount = 0, gltfNames = [''tree''],
       entities = [(''E1'', \<lparr> be_id = ''E1'', be_components = [''c0''], disableGizmos = False,
                            be_name = ''tree'' \<rparr>)],
       builderComponents =
         [(''c0'', \<lparr> bc_id = ''c0'', bc_type = ''GLTFShape'', bc_data = [(''assetId'', JStr ''a1'')] \<rparr>)],
       entityName = ''E2'', builderComponentsIds = [] \<rparr>"

definition second_tree_named :: translation where
  "second_tree_named =
     second_tree_start
       \<lparr> minted := 2, builderComponents := two_tree_components, entityName := ''tree2'',
         builderComponentsIds := [''c1''] \<rparr>"



definition example_state :: SerializedSceneState where
  "example_state =
     \<lparr> ss_entities =
         [\<lparr> se_id = ''E1'',
            se_components =
              [\<lparr> sc_type = 1, sc_value = JObj [(''x'', JNum 1)] \<rparr>,
               \<lparr> sc_type = 4, sc_value = JObj [(''value'', JStr ''door'')] \<rparr>] \<rparr>,
          \<lparr> se_id = ''E2'', se_components = [\<lparr> sc_type = 2, sc_value = JNull \<rparr>] \<rparr>] \<rparr>"

definition silent_result :: BuilderManifest where
  "silent_result =
     \<lparr> manifest_version = JNum 10,
       manifest_project = JNull,
       manifest_scene =
         \<lparr> scene_id = ''scene'',
           scene_entities = [(''E1'', \<lparr> be_id = ''E1'', be_components = [''c0''],
                               disableGizmos = False, be_name = ''E1'' \<rparr>)],
           scene_components = [(''c0'', \<lparr> bc_id = ''c0'', bc_type = ''GLTFShape'',
                                 bc_data = [(''assetId'', JStr ''a1'')] \<rparr>)],
           scene_assets = [],
           metrics = JNull,
           limits = JNull,
           ground = Some \<lparr> ground_assetId = [], ground_componentId = [] \<rparr> \<rparr> \<rparr>"













section \<open>Properties\<close>

lemma decode_encode_components:
  assumes "\<forall>c \<in> set cs. fromH (toH (sc_type c)) = sc_type c"
  shows "map (\<lambda>c. \<lparr> sc_type = fromH (stc_type c), sc_value = stc_value c \<rparr>)
           (map (\<lambda>c. \<lparr> stc_type = toH (sc_type c), stc_value = sc_value c \<rparr>) cs) = cs"
  using assms by (induction cs) simp_all


subsection \<open>The string operations of the NFT shim\<close>

lemma replaceAll_empty_pattern: "replaceAll s [] [] = s"
  by (subst replaceAll.simps) (induction s, simp_all)

lemma replaceAll_Nil: "replaceAll [] pat [] = []"
  by (subst replaceAll.simps) simp


lemma replaceAll_char: "replaceAll s [c] [] = filter (\<lambda>x. x \<noteq> c) s"
proof (induction s)
  case Nil
  show ?case by (simp add: replaceAll_Nil)
next
  case (Cons x s)
  then show ?case by (subst replaceAll.simps) auto
qed

lemma indexOf_from_char:
  "indexOf_from i s [c] =
     (if c \<in> set s then int (i + length (takeWhile (\<lambda>x. x \<noteq> c) s)) else - 1)"
  by (induction s arbitrary: i) auto

lemma indexOf_char:
  "indexOf s [c] = (if c \<in> set s then int (length (takeWhile (\<lambda>x. x \<noteq> c) s)) else - 1)"
  by (simp add: indexOf_def indexOf_from_char)


lemma slice_minus_one: "s \<noteq> [] \<Longrightarrow> slice s (- 1) = [last s]"
proof -
  assume ne: "s \<noteq> []"
  then have "nat (max (int (length s) + - 1) 0) = length s - 1"
    by (cases s) simp_all
  then have "slice s (- 1) = drop (length s - 1) s"
    by (simp add: slice_def Let_def)
  also have "\<dots> = drop (length (butlast s)) (butlast s @ [last s])"
    using ne by (metis append_butlast_last_id length_butlast)
  also have "\<dots> = [last s]" by simp
  finally show ?thesis .
qed


lemma nft_assetId_without_slash:
  assumes "CHR ''/'' \<notin> set (replaceAll url ''ethereum://'' [])"
  shows "nft_assetId url =
     (let s = replaceAll url ''ethereum://'' []
      in if s = [] then [] else filter (\<lambda>c. c \<noteq> last s) s)"
proof -
  define s where "s = replaceAll url ''ethereum://'' []"
  have idx: "indexOf s ''/'' = - 1" using assms by (simp add: indexOf_char s_def)
  show ?thesis
  proof (cases "s = []")
    case True
    then show ?thesis
      by (simp add: nft_assetId_def Let_def s_def[symmetric] replaceAll_Nil)
  next
    case False
    then have "slice s (- 1) = [last s]" by (rule slice_minus_one)
    then show ?thesis using False
      by (simp add: nft_assetId_def Let_def s_def[symmetric] idx replaceAll_char)
  qed
qed

subsection \<open>Reverse translation: objects, the shim and completion\<close>

lemma get_set_prop: "get_prop (set_prop k v obj) k' = (if k' = k then v else get_prop obj k')"
  by (simp add: get_prop_def set_prop_def update_conv')

lemma map_of_set_prop: "map_of (set_prop k v obj) = (map_of obj)(k \<mapsto> v)"
  by (simp add: set_prop_def update_conv')

lemma hasOwnProperty_set_prop:
  "hasOwnProperty (set_prop k v obj) k' = (k' = k \<or> hasOwnProperty obj k')"
  by (simp add: hasOwnProperty_def map_of_set_prop)

lemma nft_shim_string:
  "get_prop componentData ''url'' = JStr url \<Longrightarrow>
   nft_shim componentData =
     Inr (set_prop ''style'' (JNum 0)
           (set_prop ''color'' default_color
             (set_prop ''assetId'' (JStr (nft_assetId url))
               (set_prop ''src'' (JStr url) componentData))))"
  by (simp add: nft_shim_def)

lemma nft_shim_Inr:
  "nft_shim componentData = Inr shimmed \<Longrightarrow>
   \<exists>url. get_prop componentData ''url'' = JStr url \<and>
     shimmed = set_prop ''style'' (JNum 0)
           (set_prop ''color'' default_color
             (set_prop ''assetId'' (JStr (nft_assetId url))
               (set_prop ''src'' (JStr url) componentData)))"
  by (auto simp: nft_shim_def split: jsval.splits)

lemma nft_shim_has_src: "nft_shim componentData = Inr shimmed \<Longrightarrow> hasOwnProperty shimmed ''src''"
  by (auto dest!: nft_shim_Inr simp: hasOwnProperty_set_prop)

lemma set_update_subset: "set (AList.update k v al) \<subseteq> insert (k, v) (set al)"
  by (induction al) auto

lemma keys_update_present:
  "map_of al k = Some v \<Longrightarrow> map fst (AList.update k v' al) = map fst al"
  by (induction al) (auto split: if_splits)

lemma convert_component_keys:
  "convert_component env comps cid = Inr (comps1, pushed) \<Longrightarrow> map fst comps1 = map fst comps"
  by (auto simp: convert_component_def Let_def keys_update_present
           split: option.splits if_splits sum.splits)

lemma convert_component_ready:
  assumes "shim_ready comps"
  shows "\<exists>comps1 pushed. convert_component env comps cid = Inr (comps1, pushed) \<and> shim_ready comps1"
proof (cases "map_of comps cid")
  case None
  with assms show ?thesis by (simp add: convert_component_def)
next
  case (Some bc)
  then have mem: "(cid, bc) \<in> set comps" by (rule map_of_SomeD)
  show ?thesis
  proof (cases "\<not> hasOwnProperty (bc_data bc) ''src'' \<and> bc_type bc = ''NFTShape''")
    case False
    with Some assms show ?thesis by (auto simp: convert_component_def Let_def)
  next
    case True
    with mem assms obtain url where url: "get_prop (bc_data bc) ''url'' = JStr url"
      by (fastforce simp: shim_ready_def)
    then obtain shimmed where sh: "nft_shim (bc_data bc) = Inr shimmed"
      by (simp add: nft_shim_string)
    have "shim_ready (AList.update cid (bc \<lparr> bc_data := shimmed \<rparr>) comps)"
      unfolding shim_ready_def
    proof
      fix kc assume "kc \<in> set (AList.update cid (bc \<lparr> bc_data := shimmed \<rparr>) comps)"
      then have "kc = (cid, bc \<lparr> bc_data := shimmed \<rparr>) \<or> kc \<in> set comps"
        using set_update_subset by fastforce
      then show "bc_type (snd kc) = ''NFTShape'' \<and> \<not> hasOwnProperty (bc_data (snd kc)) ''src''
          \<longrightarrow> (\<exists>url. get_prop (bc_data (snd kc)) ''url'' = JStr url)"
        using assms nft_shim_has_src[OF sh] by (auto simp: shim_ready_def)
    qed
    with Some True sh show ?thesis by (simp add: convert_component_def Let_def)
  qed
qed

lemma convert_components_ready:
  "shim_ready comps \<Longrightarrow>
   \<exists>comps1 cs. convert_components env comps cids = Inr (comps1, cs) \<and> shim_ready comps1"
proof (induction cids arbitrary: comps)
  case Nil
  then show ?case by simp
next
  case (Cons cid cids)
  from convert_component_ready[OF Cons.prems] obtain comps1 pushed where
    a: "convert_component env comps cid = Inr (comps1, pushed)" and r: "shim_ready comps1"
    by blast
  from Cons.IH[OF r] obtain comps2 cs where
    b: "convert_components env comps1 cids = Inr (comps2, cs)" and r2: "shim_ready comps2"
    by blast
  from a b r2 show ?case by simp
qed

lemma convert_entities_ready:
  "shim_ready comps \<Longrightarrow>
   \<exists>comps1 g. convert_entities env comps es = Inr (comps1, g) \<and> shim_ready comps1"
proof (induction es arbitrary: comps)
  case Nil
  then show ?case by simp
next
  case (Cons e es)
  from convert_components_ready[OF Cons.prems] obtain comps1 cs where
    a: "convert_components env comps (be_components e) = Inr (comps1, cs)" and r: "shim_ready comps1"
    by blast
  from Cons.IH[OF r] obtain comps2 g where
    b: "convert_entities env comps1 es = Inr (comps2, g)" and r2: "shim_ready comps2"
    by blast
  from a b r2 show ?case by (simp add: convert_entity_def)
qed




lemma nft_shim_fields:
  assumes "nft_shim componentData = Inr d"
  shows "\<exists>url. get_prop componentData ''url'' = JStr url \<and>
           get_prop d ''src'' = JStr url \<and> get_prop d ''assetId'' = JStr (nft_assetId url) \<and>
           get_prop d ''color'' = default_color \<and> get_prop d ''style'' = JNum 0 \<and>
           (\<forall>k. k \<notin> {''src'', ''assetId'', ''color'', ''style''} \<longrightarrow> map_of d k = map_of componentData k)"
proof -
  from nft_shim_Inr[OF assms] obtain url where
    u: "get_prop componentData ''url'' = JStr url" and
    d: "d = set_prop ''style'' (JNum 0)
           (set_prop ''color'' default_color
             (set_prop ''assetId'' (JStr (nft_assetId url))
               (set_prop ''src'' (JStr url) componentData)))" by blast
  show ?thesis
    using u by (intro exI[of _ url]) (simp add: d get_set_prop map_of_set_prop)
qed





text \<open>
  Claim C8. When every NFTShape payload without \<^verbatim>\<open>src\<close> has a string \<^verbatim>\<open>url\<close>, with or
  without a path separator, the reverse translation returns a graph and raises nothing. For
  such a payload whose url has no \<^verbatim>\<open>"/"\<close> left after \<^verbatim>\<open>"ethereum://"\<close> is removed, the
  shim still assigns a string to \<^verbatim>\<open>assetId\<close>: the remainder without the occurrences of
  its last character.
\<close>

theorem nft_shim_total:
  assumes "shim_ready (scene_components scene)"
  shows
    "(\<exists>scene1 sceneState. fromBuildertoStateDefinitionFormat env scene = Inr (scene1, sceneState)) \<and>
     (\<forall>cid bc url.
        map_of (scene_components scene) cid = Some bc \<and> bc_type bc = ''NFTShape'' \<and>
        \<not> hasOwnProperty (bc_data bc) ''src'' \<and> get_prop (bc_data bc) ''url'' = JStr url \<and>
        CHR ''/'' \<notin> set (replaceAll url ''ethereum://'' [])
        \<longrightarrow> (\<exists>d. convert_component env (scene_components scene) cid =
                    Inr (AList.update cid (bc \<lparr> bc_data := d \<rparr>) (scene_components scene),
                         Some (transformStateDefinitionComponent env
                                 \<lparr> componentId = fromHumanReadableType env ''NFTShape'',
                                   component_data = d \<rparr>)) \<and>
                  get_prop d ''assetId'' =
                    JStr (let s = replaceAll url ''ethereum://'' []
                          in if s = [] then [] else filter (\<lambda>c. c \<noteq> last s) s)))"
proof (intro conjI allI impI)
  from convert_entities_ready[OF assms, of env "map snd (scene_entities scene)"]
  show "\<exists>scene1 sceneState. fromBuildertoStateDefinitionFormat env scene = Inr (scene1, sceneState)"
    by (auto simp: fromBuildertoStateDefinitionFormat_def)
next
  fix cid bc url
  assume h: "map_of (scene_components scene) cid = Some bc \<and> bc_type bc = ''NFTShape'' \<and>
        \<not> hasOwnProperty (bc_data bc) ''src'' \<and> get_prop (bc_data bc) ''url'' = JStr url \<and>
        CHR ''/'' \<notin> set (replaceAll url ''ethereum://'' [])"
  then obtain d where sh: "nft_shim (bc_data bc) = Inr d" by (simp add: nft_shim_string)
  from nft_shim_fields[OF sh] h have "get_prop d ''assetId'' = JStr (nft_assetId url)"
    by auto
  moreover from h have "nft_assetId url =
     (let s = replaceAll url ''ethereum://'' []
      in if s = [] then [] else filter (\<lambda>c. c \<noteq> last s) s)"
    by (intro nft_assetId_without_slash) simp
  moreover have "convert_component env (scene_components scene) cid =
                    Inr (AList.update cid (bc \<lparr> bc_data := d \<rparr>) (scene_components scene),
                         Some (transformStateDefinitionComponent env
                                 \<lparr> componentId = fromHumanReadableType env ''NFTShape'',
                                   component_data = d \<rparr>))"
    using h sh by (simp add: convert_component_def Let_def)
  ultimately show "\<exists>d. convert_component env (scene_components scene) cid =
                    Inr (AList.update cid (bc \<lparr> bc_data := d \<rparr>) (scene_components scene),
                         Some (transformStateDefinitionComponent env
                                 \<lparr> componentId = fromHumanReadableType env ''NFTShape'',
                                   component_data = d \<rparr>)) \<and>
                  get_prop d ''assetId'' =
                    JStr (let s = replaceAll url ''ethereum://'' []
                          in if s = [] then [] else filter (\<lambda>c. c \<noteq> last s) s)"
    by auto
qed

lemma malformed_ready: "shim_ready (scene_components malformed_nft_scene)"
  by (simp add: shim_ready_def malformed_nft_scene_def malformed_nft_component_def get_prop_def)

lemma malformed_stripped: "replaceAll ''ethereum://abca'' ''ethereum://'' [] = ''abca''"
  by code_simp

theorem nft_shim_total_witness:
  "(\<exists>scene1 sceneState.
      fromBuildertoStateDefinitionFormat example_env malformed_nft_scene = Inr (scene1, sceneState)) \<and>
   (\<exists>d. convert_component example_env (scene_components malformed_nft_scene) ''c0'' =
           Inr ([(''c0'', malformed_nft_component \<lparr> bc_data := d \<rparr>)],
                Some \<lparr> componentId = 3, component_data = d \<rparr>) \<and>
         get_prop d ''assetId'' = JStr ''bc'')"
proof -
  note t = nft_shim_total [OF malformed_ready, of example_env]
  have p: "map_of (scene_components malformed_nft_scene) ''c0'' = Some malformed_nft_component \<and>
        bc_type malformed_nft_component = ''NFTShape'' \<and>
        \<not> hasOwnProperty (bc_data malformed_nft_component) ''src'' \<and>
        get_prop (bc_data malformed_nft_component) ''url'' = JStr ''ethereum://abca'' \<and>
        CHR ''/'' \<notin> set (replaceAll ''ethereum://abca'' ''ethereum://'' [])"
    by (simp add: malformed_stripped malformed_nft_scene_def malformed_nft_component_def
          hasOwnProperty_def get_prop_def)
  have e: "fromHumanReadableType example_env ''NFTShape'' = 3"
    and tr: "transformStateDefinitionComponent example_env = (\<lambda>c. c)"
    by (simp_all add: example_env_def example_fromHumanReadableType_def)
  from t p obtain d where
    "convert_component example_env (scene_components malformed_nft_scene) ''c0'' =
       Inr (AList.update ''c0'' (malformed_nft_component \<lparr> bc_data := d \<rparr>)
              (scene_components malformed_nft_scene),
            Some (transformStateDefinitionComponent example_env
                    \<lparr> componentId = fromHumanReadableType example_env ''NFTShape'',
                      component_data = d \<rparr>))"
    and "get_prop d ''assetId'' =
           JStr (let s = replaceAll ''ethereum://abca'' ''ethereum://'' []
                 in if s = [] then [] else filter (\<lambda>c. c \<noteq> last s) s)"
    by blast
  then have "convert_component example_env (scene_components malformed_nft_scene) ''c0'' =
           Inr ([(''c0'', malformed_nft_component \<lparr> bc_data := d \<rparr>)],
                Some \<lparr> componentId = 3, component_data = d \<rparr>) \<and>
         get_prop d ''assetId'' = JStr ''bc''"
    by (simp add: malformed_stripped e tr malformed_nft_scene_def)
  with t show ?thesis by blast
qed

subsection \<open>Reverse translation: the Name component\<close>

lemma assign_name_absent:
  "\<not> (\<exists>c \<in> set cs. componentId c = code) \<Longrightarrow> assign_name code name cs = (False, cs)"
  by (induction cs) (simp_all add: Let_def)

lemma assign_name_present:
  "(\<forall>p \<in> set pre. componentId p \<noteq> code) \<Longrightarrow> componentId c = code \<Longrightarrow>
   assign_name code name (pre @ c # post) =
     (True,
      pre @ c \<lparr> component_data :=
                  set_prop ''builderValue'' (JStr name)
                    (set_prop ''value'' (get_prop (component_data c) ''value'')
                       (component_data c)) \<rparr> # post)"
  by (induction pre) (simp_all add: Let_def)

text \<open>
  Claim C9. When the converted component list of an entity has no component with the Name
  type code, the entity receives, after its converted components, what the transformer
  returns for a fresh Name component whose \<^verbatim>\<open>value\<close> and \<^verbatim>\<open>builderValue\<close> are both the
  entity's manifest name; with a transformer that passes Name components through, it is
  that component. When a Name component is present, the first one gets \<^verbatim>\<open>builderValue\<close>
  set to the manifest name, and its \<^verbatim>\<open>value\<close> and other properties are as before.
\<close>

theorem reverse_name_component:
  assumes "convert_components env comps (be_components entity) = Inr (comps1, converted)"
  shows
    "(\<not> (\<exists>c \<in> set converted. componentId c = CLASS_ID_NAME env) \<longrightarrow>
        convert_entity env comps entity =
          Inr (comps1,
               (be_id entity,
                converted @ [CreateStatelessNameComponent env (be_name entity) (be_name entity)])) \<and>
        CreateStatelessNameComponent env (be_name entity) (be_name entity) =
          transformStateDefinitionComponent env (name_component (CLASS_ID_NAME env) (be_name entity)) \<and>
        get_prop (component_data (name_component (CLASS_ID_NAME env) (be_name entity))) ''value''
          = JStr (be_name entity) \<and>
        get_prop (component_data (name_component (CLASS_ID_NAME env) (be_name entity))) ''builderValue''
          = JStr (be_name entity) \<and>
        (transformStateDefinitionComponent env (name_component (CLASS_ID_NAME env) (be_name entity))
           = name_component (CLASS_ID_NAME env) (be_name entity) \<longrightarrow>
         convert_entity env comps entity =
           Inr (comps1,
                (be_id entity,
                 converted @ [name_component (CLASS_ID_NAME env) (be_name entity)])))) \<and>
     (\<forall>pre c post.
        converted = pre @ c # post \<and> (\<forall>p \<in> set pre. componentId p \<noteq> CLASS_ID_NAME env) \<and>
        componentId c = CLASS_ID_NAME env \<longrightarrow>
        (\<exists>d. convert_entity env comps entity =
                Inr (comps1, (be_id entity, pre @ c \<lparr> component_data := d \<rparr> # post)) \<and>
              get_prop d ''builderValue'' = JStr (be_name entity) \<and>
              get_prop d ''value'' = get_prop (component_data c) ''value'' \<and>
              (\<forall>k. k \<notin> {''value'', ''builderValue''} \<longrightarrow> map_of d k = map_of (component_data c) k)))"
proof (intro conjI allI impI)
  assume absent: "\<not> (\<exists>c \<in> set converted. componentId c = CLASS_ID_NAME env)"
  from assign_name_absent[OF absent]
  show ce: "convert_entity env comps entity =
          Inr (comps1,
               (be_id entity,
                converted @ [CreateStatelessNameComponent env (be_name entity) (be_name entity)]))"
    using assms by (simp add: convert_entity_def name_components_def Let_def)
  show cs: "CreateStatelessNameComponent env (be_name entity) (be_name entity) =
          transformStateDefinitionComponent env (name_component (CLASS_ID_NAME env) (be_name entity))"
    by (simp add: CreateStatelessNameComponent_def name_component_def)
  show "get_prop (component_data (name_component (CLASS_ID_NAME env) (be_name entity))) ''value''
          = JStr (be_name entity)"
    by (simp add: name_component_def get_prop_def)
  show "get_prop (component_data (name_component (CLASS_ID_NAME env) (be_name entity))) ''builderValue''
          = JStr (be_name entity)"
    by (simp add: name_component_def get_prop_def)
  assume "transformStateDefinitionComponent env (name_component (CLASS_ID_NAME env) (be_name entity))
           = name_component (CLASS_ID_NAME env) (be_name entity)"
  with ce cs show "convert_entity env comps entity =
           Inr (comps1,
                (be_id entity,
                 converted @ [name_component (CLASS_ID_NAME env) (be_name entity)]))"
    by simp
next
  fix pre c post
  assume h: "converted = pre @ c # post \<and> (\<forall>p \<in> set pre. componentId p \<noteq> CLASS_ID_NAME env) \<and>
        componentId c = CLASS_ID_NAME env"
  define d where "d = set_prop ''builderValue'' (JStr (be_name entity))
                    (set_prop ''value'' (get_prop (component_data c) ''value'')
                       (component_data c))"
  from h have "assign_name (CLASS_ID_NAME env) (be_name entity) converted =
     (True, pre @ c \<lparr> component_data := d \<rparr> # post)"
    by (simp add: assign_name_present d_def)
  with assms have "convert_entity env comps entity =
                Inr (comps1, (be_id entity, pre @ c \<lparr> component_data := d \<rparr> # post))"
    by (simp add: convert_entity_def name_components_def Let_def)
  moreover have "get_prop d ''builderValue'' = JStr (be_name entity)"
    and "get_prop d ''value'' = get_prop (component_data c) ''value''"
    and "\<forall>k. k \<notin> {''value'', ''builderValue''} \<longrightarrow> map_of d k = map_of (component_data c) k"
    by (simp_all add: d_def get_set_prop map_of_set_prop)
  ultimately show "\<exists>d. convert_entity env comps entity =
                Inr (comps1, (be_id entity, pre @ c \<lparr> component_data := d \<rparr> # post)) \<and>
              get_prop d ''builderValue'' = JStr (be_name entity) \<and>
              get_prop d ''value'' = get_prop (component_data c) ''value'' \<and>
              (\<forall>k. k \<notin> {''value'', ''builderValue''} \<longrightarrow> map_of d k = map_of (component_data c) k)"
    by blast
qed

theorem reverse_name_component_witness:
  "convert_entity example_env spawn_table spawn_entity =
     Inr (spawn_table,
          (''E1'',
           [\<lparr> componentId = 1, component_data = [(''x'', JNum 1)] \<rparr>,
            \<lparr> componentId = 4,
              component_data = [(''value'', JStr ''Spawn1''), (''builderValue'', JStr ''Spawn1'')] \<rparr>])) \<and>
   (\<exists>d. convert_entity example_env spawn_table door_entity =
           Inr (spawn_table,
                (''E2'',
                 [\<lparr> componentId = 1, component_data = [(''x'', JNum 1)] \<rparr>,
                  \<lparr> componentId = 4, component_data = d \<rparr>])) \<and>
         get_prop d ''builderValue'' = JStr ''Door2'' \<and> get_prop d ''value'' = JStr ''door'')"
proof -
  have tr: "transformStateDefinitionComponent example_env = (\<lambda>c. c)"
    and nm: "CLASS_ID_NAME example_env = 4"
    by (simp_all add: example_env_def)
  have c1: "convert_components example_env spawn_table (be_components spawn_entity) =
      Inr (spawn_table, [\<lparr> componentId = 1, component_data = [(''x'', JNum 1)] \<rparr>])"
    by (simp add: spawn_table_def spawn_entity_def convert_component_def hasOwnProperty_def
          example_env_def example_fromHumanReadableType_def)
  have c2: "convert_components example_env spawn_table (be_components door_entity) =
      Inr (spawn_table, [\<lparr> componentId = 1, component_data = [(''x'', JNum 1)] \<rparr>,
                         \<lparr> componentId = 4, component_data = [(''value'', JStr ''door'')] \<rparr>])"
    by (simp add: spawn_table_def door_entity_def convert_component_def hasOwnProperty_def
          example_env_def example_fromHumanReadableType_def)
  from reverse_name_component [OF c1]
  have a: "convert_entity example_env spawn_table spawn_entity =
     Inr (spawn_table,
          (''E1'',
           [\<lparr> componentId = 1, component_data = [(''x'', JNum 1)] \<rparr>,
            \<lparr> componentId = 4,
              component_data = [(''value'', JStr ''Spawn1''), (''builderValue'', JStr ''Spawn1'')] \<rparr>]))"
    by (simp add: tr nm name_component_def spawn_entity_def)
  from reverse_name_component [OF c2]
  have "\<forall>pre c post.
        [\<lparr> componentId = 1, component_data = [(''x'', JNum 1)] \<rparr>,
         \<lparr> componentId = 4, component_data = [(''value'', JStr ''door'')] \<rparr>] = pre @ c # post \<and>
        (\<forall>p \<in> set pre. componentId p \<noteq> CLASS_ID_NAME example_env) \<and>
        componentId c = CLASS_ID_NAME example_env \<longrightarrow>
        (\<exists>d. convert_entity example_env spawn_table door_entity =
                Inr (spawn_table, (be_id door_entity, pre @ c \<lparr> component_data := d \<rparr> # post)) \<and>
              get_prop d ''builderValue'' = JStr (be_name door_entity) \<and>
              get_prop d ''value'' = get_prop (component_data c) ''value'' \<and>
              (\<forall>k. k \<notin> {''value'', ''builderValue''} \<longrightarrow> map_of d k = map_of (component_data c) k))"
    by blast
  from this[rule_format, of "[\<lparr> componentId = 1, component_data = [(''x'', JNum 1)] \<rparr>]"
       "\<lparr> componentId = 4, component_data = [(''value'', JStr ''door'')] \<rparr>" "[]"]
  have b: "\<exists>d. convert_entity example_env spawn_table door_entity =
           Inr (spawn_table,
                (''E2'',
                 [\<lparr> componentId = 1, component_data = [(''x'', JNum 1)] \<rparr>,
                  \<lparr> componentId = 4, component_data = d \<rparr>])) \<and>
         get_prop d ''builderValue'' = JStr ''Door2'' \<and> get_prop d ''value'' = JStr ''door''"
    by (auto simp add: nm door_entity_def get_prop_def)
  from a b show ?thesis by blast
qed

subsection \<open>Reverse translation: dangling references\<close>

lemma convert_components_keys:
  "convert_components env comps cids = Inr (comps1, cs) \<Longrightarrow> map fst comps1 = map fst comps"
proof (induction cids arbitrary: comps comps1 cs)
  case Nil
  then show ?case by simp
next
  case (Cons cid cids)
  from Cons.prems obtain c1 pushed c2 rest where
    a: "convert_component env comps cid = Inr (c1, pushed)" and
    b: "convert_components env c1 cids = Inr (c2, rest)" and c: "comps1 = c2"
    by (auto split: sum.splits prod.splits)
  from Cons.IH[OF b] convert_component_keys[OF a] c show ?case by simp
qed

lemma convert_components_skip:
  "convert_components env comps (filter (\<lambda>cid. cid \<in> set (map fst comps)) cids)
     = convert_components env comps cids"
proof (induction cids arbitrary: comps)
  case Nil
  show ?case by simp
next
  case (Cons cid cids)
  show ?case
  proof (cases "map_of comps cid")
    case None
    then have out: "cid \<notin> set (map fst comps)" by (simp add: map_of_eq_None_iff)
    from None have "convert_component env comps cid = Inr (comps, None)"
      by (simp add: convert_component_def)
    then have "convert_components env comps (cid # cids) = convert_components env comps cids"
      by (simp split: sum.splits prod.splits)
    with out Cons.IH[of comps] show ?thesis by simp
  next
    case (Some bc)
    then have inn: "cid \<in> set (map fst comps)"
      by (metis map_of_eq_None_iff option.distinct(1) set_map)
    show ?thesis
    proof (cases "convert_component env comps cid")
      case (Inl e)
      with inn show ?thesis by simp
    next
      case (Inr r)
      obtain c1 pushed where r: "r = (c1, pushed)" by (cases r)
      from convert_component_keys[OF Inr[unfolded r]] have "map fst c1 = map fst comps" .
      with Cons.IH[of c1]
      have "convert_components env c1 (filter (\<lambda>cid. cid \<in> set (map fst comps)) cids)
              = convert_components env c1 cids" by simp
      with inn Inr r show ?thesis by simp
    qed
  qed
qed

lemma convert_entities_skip:
  "convert_entities env comps (map (drop_dangling_ids (map fst comps)) es)
     = convert_entities env comps es"
proof (induction es arbitrary: comps)
  case Nil
  show ?case by simp
next
  case (Cons e es)
  let ?p = "drop_dangling_ids (map fst comps)"
  have sel: "be_components (?p e) = filter (\<lambda>cid. cid \<in> set (map fst comps)) (be_components e)"
    "be_id (?p e) = be_id e" "be_name (?p e) = be_name e"
    by (simp_all add: drop_dangling_ids_def)
  have head: "convert_entity env comps (?p e) = convert_entity env comps e"
    unfolding convert_entity_def sel convert_components_skip ..
  show ?case
  proof (cases "convert_entity env comps e")
    case (Inl err)
    with head show ?thesis by simp
  next
    case (Inr r)
    obtain c1 added where r: "r = (c1, added)" by (cases r)
    from Inr r have "\<exists>cs. convert_components env comps (be_components e) = Inr (c1, cs)"
      by (auto simp: convert_entity_def split: sum.splits prod.splits)
    then have "map fst c1 = map fst comps" by (auto dest: convert_components_keys)
    with Cons.IH[of c1] have "convert_entities env c1 (map ?p es) = convert_entities env c1 es"
      by simp
    with head Inr r show ?thesis by simp
  qed
qed

text \<open>
  Claim C10. A component id that an entity lists and the component table does not hold is
  skipped: the translation of the scene, its error or its graph, is the one of the scene
  with the dangling ids taken out of the entities' lists, and taking one dangling id out of
  a list leaves the converted components as they are. The translation returns a graph
  whenever the shim can read the NFTShape payloads, whatever the dangling ids.
\<close>

theorem dangling_references_skipped:
  "map_sum id snd (fromBuildertoStateDefinitionFormat env (without_dangling scene))
     = map_sum id snd (fromBuildertoStateDefinitionFormat env scene) \<and>
   (cid \<notin> set (map fst comps) \<longrightarrow>
      convert_components env comps (before @ cid # after)
        = convert_components env comps (before @ after)) \<and>
   (shim_ready (scene_components scene) \<longrightarrow>
      (\<exists>scene1 sceneState.
         fromBuildertoStateDefinitionFormat env scene = Inr (scene1, sceneState)))"
proof (intro conjI impI)
  have "map snd (scene_entities (without_dangling scene)) =
     map (drop_dangling_ids (map fst (scene_components scene))) (map snd (scene_entities scene))"
    by (simp add: without_dangling_def comp_def)
  moreover have "scene_components (without_dangling scene) = scene_components scene"
    by (simp add: without_dangling_def)
  ultimately have "convert_entities env (scene_components (without_dangling scene))
      (map snd (scene_entities (without_dangling scene)))
    = convert_entities env (scene_components scene) (map snd (scene_entities scene))"
    by (simp only: convert_entities_skip)
  then show "map_sum id snd (fromBuildertoStateDefinitionFormat env (without_dangling scene))
     = map_sum id snd (fromBuildertoStateDefinitionFormat env scene)"
    by (simp add: fromBuildertoStateDefinitionFormat_def split: sum.splits prod.splits)
next
  assume "cid \<notin> set (map fst comps)"
  then have "filter (\<lambda>c. c \<in> set (map fst comps)) (before @ cid # after)
           = filter (\<lambda>c. c \<in> set (map fst comps)) (before @ after)" by simp
  then show "convert_components env comps (before @ cid # after)
        = convert_components env comps (before @ after)"
    by (metis convert_components_skip)
next
  assume "shim_ready (scene_components scene)"
  from convert_entities_ready[OF this, of env "map snd (scene_entities scene)"]
  show "\<exists>scene1 sceneState. fromBuildertoStateDefinitionFormat env scene = Inr (scene1, sceneState)"
    by (auto simp: fromBuildertoStateDefinitionFormat_def)
qed

theorem dangling_references_skipped_witness:
  "(\<exists>scene1 sceneState.
      fromBuildertoStateDefinitionFormat example_env dangling_scene = Inr (scene1, sceneState)) \<and>
   map_sum id snd (fromBuildertoStateDefinitionFormat example_env dangling_scene)
     = map_sum id snd (fromBuildertoStateDefinitionFormat example_env
         (dangling_scene \<lparr> scene_entities :=
            [(''E1'', \<lparr> be_id = ''E1'', be_components = [''c0''], disableGizmos = False,
                       be_name = ''Spawn1'' \<rparr>)] \<rparr>)) \<and>
   convert_components example_env (scene_components dangling_scene) [''c9'', ''c0'', ''c7'']
     = convert_components example_env (scene_components dangling_scene) [''c0'', ''c7'']"
proof -
  note t = dangling_references_skipped
    [of example_env dangling_scene "''c9''" "scene_components dangling_scene" "[]"
        "[''c0'', ''c7'']"]
  have r: "shim_ready (scene_components dangling_scene)"
    by (simp add: shim_ready_def dangling_scene_def example_nft_component_def get_prop_def)
  have w: "without_dangling dangling_scene =
     dangling_scene \<lparr> scene_entities :=
            [(''E1'', \<lparr> be_id = ''E1'', be_components = [''c0''], disableGizmos = False,
                       be_name = ''Spawn1'' \<rparr>)] \<rparr>"
    by (simp add: without_dangling_def drop_dangling_ids_def dangling_scene_def)
  have k: "''c0'' \<in> set (map fst (scene_components dangling_scene))"
    "''c9'' \<notin> set (map fst (scene_components dangling_scene))"
    by (simp_all add: dangling_scene_def)
  from t r k w show ?thesis by simp
qed

subsection \<open>The snapshot codec\<close>

lemma decode_encode_entities:
  assumes "\<forall>e \<in> set es. \<forall>c \<in> set (se_components e). fromH (toH (sc_type c)) = sc_type c"
  shows "map (\<lambda>e. \<lparr> se_id = ste_id e,
                    se_components =
                      map (\<lambda>c. \<lparr> sc_type = fromH (stc_type c), sc_value = stc_value c \<rparr>)
                        (ste_components e) \<rparr>)
           (map (\<lambda>e. \<lparr> ste_id = se_id e,
                       ste_components =
                         map (\<lambda>c. \<lparr> stc_type = toH (sc_type c), stc_value = sc_value c \<rparr>)
                           (se_components e) \<rparr>) es) = es"
  using assms
proof (induction es)
  case Nil
  show ?case by simp
next
  case (Cons e es)
  from Cons.prems have "\<forall>c \<in> set (se_components e). fromH (toH (sc_type c)) = sc_type c"
    by simp
  then have head: "map (\<lambda>c. \<lparr> sc_type = fromH (stc_type c), sc_value = stc_value c \<rparr>)
           (map (\<lambda>c. \<lparr> stc_type = toH (sc_type c), stc_value = sc_value c \<rparr>) (se_components e))
         = se_components e"
    by (rule decode_encode_components)
  from Cons have tail: "map (\<lambda>e. \<lparr> se_id = ste_id e,
                    se_components =
                      map (\<lambda>c. \<lparr> sc_type = fromH (stc_type c), sc_value = stc_value c \<rparr>)
                        (ste_components e) \<rparr>)
           (map (\<lambda>e. \<lparr> ste_id = se_id e,
                       ste_components =
                         map (\<lambda>c. \<lparr> stc_type = toH (sc_type c), stc_value = sc_value c \<rparr>)
                           (se_components e) \<rparr>) es) = es"
    by simp
  show ?case using head tail by simp
qed

text \<open>
  Claim C2. Decoding the encoded snapshot gives back the internal wire-shape state,
  whenever the type-code bridge maps every component type of the state to a name that it
  maps back to the same type (as a bijective bridge does).
\<close>

theorem snapshot_roundtrip:
  assumes "\<forall>t \<in> types_of E. fromHumanReadable (toHumanReadable t) = t"
  shows "fromStorableFormatToSerializedState fromHumanReadable
           (fromSerializedStateToStorableFormat toHumanReadable E) = E"
proof -
  from assms have "\<forall>e \<in> set (ss_entities E). \<forall>c \<in> set (se_components e).
      fromHumanReadable (toHumanReadable (sc_type c)) = sc_type c"
    by (auto simp: types_of_def)
  then have "map (\<lambda>e. \<lparr> se_id = ste_id e,
                    se_components =
                      map (\<lambda>c. \<lparr> sc_type = fromHumanReadable (stc_type c), sc_value = stc_value c \<rparr>)
                        (ste_components e) \<rparr>)
           (map (\<lambda>e. \<lparr> ste_id = se_id e,
                       ste_components =
                         map (\<lambda>c. \<lparr> stc_type = toHumanReadable (sc_type c), stc_value = sc_value c \<rparr>)
                           (se_components e) \<rparr>) (ss_entities E)) = ss_entities E"
    by (rule decode_encode_entities)
  then show ?thesis
    by (simp add: fromStorableFormatToSerializedState_def
          fromSerializedStateToStorableFormat_def)
qed

theorem snapshot_roundtrip_witness:
  "types_of example_state = {1, 2, 4} \<and>
   fromStorableFormatToSerializedState example_fromHumanReadableType
     (fromSerializedStateToStorableFormat example_toHumanReadableType example_state)
     = example_state"
proof -
  have h: "\<forall>t \<in> types_of example_state.
      example_fromHumanReadableType (example_toHumanReadableType t) = t"
    by (simp add: types_of_def example_state_def example_fromHumanReadableType_def
          example_toHumanReadableType_def)
  have "types_of example_state = {1, 2, 4}"
    by (auto simp: types_of_def example_state_def)
  with snapshot_roundtrip [OF h] show ?thesis by simp
qed


subsection \<open>NFT entity names\<close>

lemma nft_counter_stays: "nft_nextCount (nft_nextCount 0) = nft_nextCount 0"
  by (simp add: nft_nextCount_def)

text \<open>
  Claim C1. Three entities with one NFTShape component each should be named nft, nft2 and
  nft3. The counter is only advanced by the first NFTShape component (the branch for
  \<^verbatim>\<open>nftCount >= 1\<close> assigns the name and leaves the counter), so the translation
  names them nft, nft2 and nft2.
\<close>

theorem three_nft_scene_names:
  "(case toBuilderFromStateDefinitionFormat example_env three_nft_scene example_manifest of
      Inl e \<Rightarrow> []
    | Inr r \<Rightarrow> map (\<lambda>ke. be_name (snd ke)) (scene_entities (manifest_scene (snd r))))
   = [''nft'', ''nft2'', ''nft2'']"
  by code_simp


subsection \<open>Forward translation: the asset table\<close>

lemma keys_merge_assets:
  "fst ` set (merge_assets newAssets assets) = fst ` set assets \<union> fst ` set newAssets"
  unfolding merge_assets_def
  by (induction newAssets arbitrary: assets) (auto simp: dom_update)

lemma keys_fold_used:
  "fst ` set (fold (\<lambda>kv newRecords.
             if P (fst kv) then AList.update (fst kv) (snd kv) newRecords else newRecords)
          assets acc)
     = fst ` set acc \<union> {k \<in> fst ` set assets. P k}"
  by (induction assets arbitrary: acc) (auto simp: dom_update)

lemma keys_remove_unused_assets:
  "fst ` set (remove_unused_assets comps assets) = {k \<in> fst ` set assets. gltf_references comps k}"
  unfolding remove_unused_assets_def by (simp add: keys_fold_used)

lemma gltf_references_iff: "gltf_references comps k \<longleftrightarrow> JStr k \<in> referenced_assetIds comps"
  by (force simp: gltf_references_def referenced_assetIds_def)

lemma referenced_split:
  "referenced_assetIds comps \<subseteq> JStr ` fst ` set assets \<union> set (idArray comps assets)"
proof
  fix v assume "v \<in> referenced_assetIds comps"
  then obtain c where c: "c \<in> snd ` set comps" "bc_type c = ''GLTFShape''"
    and v: "v = get_prop (bc_data c) ''assetId''"
    by (auto simp: referenced_assetIds_def)
  show "v \<in> JStr ` fst ` set assets \<union> set (idArray comps assets)"
  proof (cases "\<exists>k \<in> set (map fst assets). JStr k = get_prop (bc_data c) ''assetId''")
    case True
    then obtain k where "k \<in> fst ` set assets" and "JStr k = v" unfolding v by auto
    then have "v \<in> JStr ` fst ` set assets" by blast
    then show ?thesis by simp
  next
    case False
    with c have "c \<in> set (filter (\<lambda>c. bc_type c = ''GLTFShape'' \<and>
                    \<not> (\<exists>k \<in> set (map fst assets). JStr k = get_prop (bc_data c) ''assetId''))
          (map snd comps))" by simp
    then have "v \<in> set (idArray comps assets)"
      unfolding idArray_def v set_map by (rule imageI)
    then show ?thesis by simp
  qed
qed

lemma toBuilder_Inr:
  assumes "toBuilderFromStateDefinitionFormat env scene builderManifest = Inr (scene1, result)"
  shows "\<exists>st newAssets found.
     translate_entities env initial_translation scene = Inr (st, scene1) \<and>
     getAssets env (idArray (builderComponents st) (scene_assets (manifest_scene builderManifest)))
       = Inr newAssets \<and>
     detect_ground (builderComponents st)
       (remove_unused_assets (builderComponents st)
          (merge_assets newAssets (scene_assets (manifest_scene builderManifest))))
       (ground (manifest_scene builderManifest), None) = Inr found \<and>
     result = builderManifest
        \<lparr> manifest_scene :=
            \<lparr> scene_id = scene_id (manifest_scene builderManifest),
              scene_entities = disable_ground_gizmos (snd found) (entities st),
              scene_components = builderComponents st,
              scene_assets = remove_unused_assets (builderComponents st)
                 (merge_assets newAssets (scene_assets (manifest_scene builderManifest))),
              metrics = metrics (manifest_scene builderManifest),
              limits = limits (manifest_scene builderManifest),
              ground = fst found \<rparr> \<rparr>"
  using assms
  by (auto simp: toBuilderFromStateDefinitionFormat_def Let_def split: sum.splits prod.splits)

text \<open>
  Claim C3, as amended. After a forward translation that completes, every key of the
  manifest's asset table is the \<^verbatim>\<open>data.assetId\<close> of a GLTFShape component of the component
  table, and a referenced \<^verbatim>\<open>assetId\<close> is a key exactly when it is a string that the
  skeleton's asset table already held or that the catalog returned for the reconciliation
  request. The two sets are equal when the catalog returns an entry for every id of the
  request.
\<close>

theorem asset_table_reconciled:
  assumes "toBuilderFromStateDefinitionFormat env scene builderManifest = Inr (scene1, result)"
  shows
    "\<exists>reply.
       getAssets env (idArray (scene_components (manifest_scene result))
                        (scene_assets (manifest_scene builderManifest))) = Inr reply \<and>
       JStr ` fst ` set (scene_assets (manifest_scene result))
         = {v \<in> referenced_assetIds (scene_components (manifest_scene result)).
              v \<in> JStr ` (fst ` set (scene_assets (manifest_scene builderManifest)) \<union> fst ` set reply)} \<and>
       JStr ` fst ` set (scene_assets (manifest_scene result))
         \<subseteq> referenced_assetIds (scene_components (manifest_scene result)) \<and>
       ((\<forall>v \<in> set (idArray (scene_components (manifest_scene result))
                       (scene_assets (manifest_scene builderManifest))).
            v \<in> JStr ` fst ` set reply)
        \<longrightarrow> JStr ` fst ` set (scene_assets (manifest_scene result))
              = referenced_assetIds (scene_components (manifest_scene result)))"
proof -
  from toBuilder_Inr[OF assms] obtain st :: translation and newAssets found where
    reply: "getAssets env (idArray (builderComponents st) (scene_assets (manifest_scene builderManifest)))
       = Inr newAssets" and
    res: "result = builderManifest
        \<lparr> manifest_scene :=
            \<lparr> scene_id = scene_id (manifest_scene builderManifest),
              scene_entities = disable_ground_gizmos (snd found) (entities st),
              scene_components = builderComponents st,
              scene_assets = remove_unused_assets (builderComponents st)
                 (merge_assets newAssets (scene_assets (manifest_scene builderManifest))),
              metrics = metrics (manifest_scene builderManifest),
              limits = limits (manifest_scene builderManifest),
              ground = fst found \<rparr> \<rparr>"
    by blast
  let ?comps = "builderComponents st"
  let ?old = "scene_assets (manifest_scene builderManifest)"
  have c: "scene_components (manifest_scene result) = ?comps"
    and a: "scene_assets (manifest_scene result) = remove_unused_assets ?comps (merge_assets newAssets ?old)"
    by (simp_all add: res)
  have keys: "fst ` set (scene_assets (manifest_scene result))
     = {k \<in> fst ` set ?old \<union> fst ` set newAssets. JStr k \<in> referenced_assetIds ?comps}"
    by (simp add: a keys_remove_unused_assets keys_merge_assets gltf_references_iff)
  have exact: "JStr ` fst ` set (scene_assets (manifest_scene result))
         = {v \<in> referenced_assetIds ?comps. v \<in> JStr ` (fst ` set ?old \<union> fst ` set newAssets)}"
    unfolding keys by auto
  then have sub: "JStr ` fst ` set (scene_assets (manifest_scene result)) \<subseteq> referenced_assetIds ?comps"
    by blast
  have full: "JStr ` fst ` set (scene_assets (manifest_scene result)) = referenced_assetIds ?comps"
    if all: "\<forall>v \<in> set (idArray ?comps ?old). v \<in> JStr ` fst ` set newAssets"
  proof
    show "JStr ` fst ` set (scene_assets (manifest_scene result)) \<subseteq> referenced_assetIds ?comps"
      by (rule sub)
    show "referenced_assetIds ?comps \<subseteq> JStr ` fst ` set (scene_assets (manifest_scene result))"
    proof
      fix v assume v: "v \<in> referenced_assetIds ?comps"
      with referenced_split[of ?comps ?old] have "v \<in> JStr ` fst ` set ?old \<or> v \<in> set (idArray ?comps ?old)"
        by blast
      with all have "v \<in> JStr ` (fst ` set ?old \<union> fst ` set newAssets)" by blast
      with v show "v \<in> JStr ` fst ` set (scene_assets (manifest_scene result))"
        unfolding exact by simp
    qed
  qed
  from reply exact sub full show ?thesis
    unfolding c by (intro exI[of _ newAssets]) blast
qed

lemma silent_run:
  "toBuilderFromStateDefinitionFormat silent_catalog_env one_tree_scene example_manifest =
     Inr (one_tree_scene, silent_result)"
  by code_simp

text \<open>
  With a catalog that omits the requested asset, the asset table stays empty although a
  GLTFShape component references \<^verbatim>\<open>a1\<close>.
\<close>

theorem asset_table_counterexample:
  "toBuilderFromStateDefinitionFormat silent_catalog_env one_tree_scene example_manifest
     = Inr (one_tree_scene, silent_result) \<and>
   scene_assets (manifest_scene silent_result) = [] \<and>
   referenced_assetIds (scene_components (manifest_scene silent_result)) = {JStr ''a1''}"
  by (auto simp add: silent_run referenced_assetIds_def silent_result_def get_prop_def)

lemma two_tree_run:
  "toBuilderFromStateDefinitionFormat example_env two_tree_scene example_manifest
     = Inr (two_tree_scene, two_tree_result)"
  by code_simp

theorem asset_table_reconciled_witness:
  "toBuilderFromStateDefinitionFormat example_env two_tree_scene example_manifest
     = Inr (two_tree_scene, two_tree_result) \<and>
   JStr ` fst ` set (scene_assets (manifest_scene two_tree_result))
     = referenced_assetIds (scene_components (manifest_scene two_tree_result)) \<and>
   referenced_assetIds (scene_components (manifest_scene two_tree_result)) = {JStr ''a1''}"
proof -
  have ids: "idArray (scene_components (manifest_scene two_tree_result))
               (scene_assets (manifest_scene example_manifest)) = [JStr ''a1'', JStr ''a1'']"
    by (simp add: idArray_def two_tree_result_def two_tree_components_def example_manifest_def
          get_prop_def)
  have reply: "getAssets example_env [JStr ''a1'', JStr ''a1'']
      = Inr [(''a1'', \<lparr> asset_name = ''Tree'', category = ''decorations'' \<rparr>)]"
    by (simp add: example_env_def example_catalog_def)
  from asset_table_reconciled [OF two_tree_run]
  have "JStr ` fst ` set (scene_assets (manifest_scene two_tree_result))
     = referenced_assetIds (scene_components (manifest_scene two_tree_result))"
  proof (elim exE conjE)
    fix r
    assume g: "getAssets example_env
        (idArray (scene_components (manifest_scene two_tree_result))
           (scene_assets (manifest_scene example_manifest))) = Inr r"
    assume imp: "(\<forall>v \<in> set (idArray (scene_components (manifest_scene two_tree_result))
                       (scene_assets (manifest_scene example_manifest))).
            v \<in> JStr ` fst ` set r)
        \<longrightarrow> JStr ` fst ` set (scene_assets (manifest_scene two_tree_result))
              = referenced_assetIds (scene_components (manifest_scene two_tree_result))"
    from g have r: "r = [(''a1'', \<lparr> asset_name = ''Tree'', category = ''decorations'' \<rparr>)]"
      by (simp add: ids reply)
    have "\<forall>v \<in> set (idArray (scene_components (manifest_scene two_tree_result))
                       (scene_assets (manifest_scene example_manifest))).
            v \<in> JStr ` fst ` set r"
      by (simp add: ids r)
    with imp show ?thesis by (rule mp)
  qed
  moreover have "referenced_assetIds (scene_components (manifest_scene two_tree_result)) = {JStr ''a1''}"
    by (auto simp: referenced_assetIds_def two_tree_result_def two_tree_components_def get_prop_def)
  ultimately show ?thesis using two_tree_run by simp
qed


subsection \<open>Forward translation: the ground and the gizmos\<close>

lemma translate_component_entities:
  "translate_component env st c = Inr (st1, c1) \<Longrightarrow> entities st1 = entities st"
  by (auto simp: translate_component_def Let_def split: sum.splits if_splits)

lemma translate_components_entities:
  "translate_components env st cs = Inr (st1, cs1) \<Longrightarrow> entities st1 = entities st"
proof (induction cs arbitrary: st st1 cs1)
  case Nil
  then show ?case by simp
next
  case (Cons c cs)
  from Cons.prems obtain sa ca sb cb where
    a: "translate_component env st c = Inr (sa, ca)" and
    b: "translate_components env sa cs = Inr (sb, cb)" and e: "st1 = sb"
    by (auto split: sum.splits prod.splits)
  from Cons.IH[OF b] translate_component_entities[OF a] e show ?case by simp
qed

lemma translate_entity_gizmos:
  assumes "\<forall>ke \<in> set (entities st). \<not> disableGizmos (snd ke)"
    and "translate_entity env st e = Inr (st1, e1)"
  shows "\<forall>ke \<in> set (entities st1). \<not> disableGizmos (snd ke)"
proof -
  from assms(2) obtain sa mapped where
    a: "translate_components env (st \<lparr> entityName := fst e, builderComponentsIds := [] \<rparr>) (snd e)
          = Inr (sa, mapped)" and
    s: "entities st1 = AList.update (fst e)
           \<lparr> be_id = fst e, be_components = builderComponentsIds sa, disableGizmos = False,
             be_name = entityName sa \<rparr> (entities sa)"
    by (auto simp: translate_entity_def Let_def split: sum.splits prod.splits)
  from translate_components_entities[OF a] have "entities sa = entities st" by simp
  with s assms(1) set_update_subset[of "fst e" _ "entities st"] show ?thesis by fastforce
qed

lemma translate_entities_gizmos:
  "\<forall>ke \<in> set (entities st). \<not> disableGizmos (snd ke) \<Longrightarrow>
   translate_entities env st es = Inr (st1, es1) \<Longrightarrow>
   \<forall>ke \<in> set (entities st1). \<not> disableGizmos (snd ke)"
proof (induction es arbitrary: st st1 es1)
  case Nil
  then show ?case by simp
next
  case (Cons e es)
  from Cons.prems(2) obtain sa ea sb eb where
    a: "translate_entity env st e = Inr (sa, ea)" and
    b: "translate_entities env sa es = Inr (sb, eb)" and e: "st1 = sb"
    by (auto split: sum.splits prod.splits)
  from translate_entity_gizmos[OF Cons.prems(1) a] have "\<forall>ke \<in> set (entities sa). \<not> disableGizmos (snd ke)" .
  from Cons.IH[OF this b] e show ?case by simp
qed

lemma scan_ground_component_unique:
  assumes "\<forall>kc \<in> set comps. get_prop (bc_data (snd kc)) ''assetId'' = JStr a \<longrightarrow> fst kc = cid"
  shows "scan_ground_component comps a (g, x) =
     (if \<exists>kc \<in> set comps. get_prop (bc_data (snd kc)) ''assetId'' = JStr a
      then (g \<lparr> ground_componentId := cid \<rparr>, Some cid) else (g, x))"
  using assms unfolding scan_ground_component_def
proof (induction comps arbitrary: g x)
  case Nil
  show ?case by simp
next
  case (Cons kc comps)
  then show ?case by (cases "get_prop (bc_data (snd kc)) ''assetId'' = JStr a") auto
qed

lemma detect_ground_unique:
  assumes "\<forall>kc \<in> set comps. get_prop (bc_data (snd kc)) ''assetId'' = JStr a \<longrightarrow> fst kc = cid"
    and "\<exists>kc \<in> set comps. get_prop (bc_data (snd kc)) ''assetId'' = JStr a"
  shows "\<forall>kv \<in> set assets. category (snd kv) = ''ground'' \<longrightarrow> fst kv = a \<Longrightarrow>
     detect_ground comps assets (g0, x) = Inr found \<Longrightarrow>
     (if \<exists>kv \<in> set assets. category (snd kv) = ''ground''
      then snd found = Some cid \<and>
           (\<exists>g. fst found = Some g \<and> ground_assetId g = a \<and> ground_componentId g = cid)
      else found = (g0, x))"
proof (induction assets arbitrary: g0 x)
  case Nil
  then show ?case by simp
next
  case (Cons kv assets)
  show ?case
  proof (cases "category (snd kv) = ''ground''")
    case False
    with Cons show ?thesis by simp
  next
    case True
    with Cons.prems(1) have k: "fst kv = a" by simp
    from True Cons.prems(2) obtain g where g0: "g0 = Some g"
      by (cases g0) simp_all
    let ?g = "g \<lparr> ground_assetId := a, ground_componentId := cid \<rparr>"
    have scan: "scan_ground_component comps a (g \<lparr> ground_assetId := a \<rparr>, x) = (?g, Some cid)"
      using scan_ground_component_unique[OF assms(1)] assms(2) by simp
    with True k g0 Cons.prems(2) have rest: "detect_ground comps assets (Some ?g, Some cid) = Inr found"
      by (simp add: Let_def)
    from Cons.prems(1) have "\<forall>kv \<in> set assets. category (snd kv) = ''ground'' \<longrightarrow> fst kv = a"
      by simp
    from Cons.IH[OF this rest] True show ?thesis
      by (auto split: if_splits)
  qed
qed

lemma disable_ground_gizmos_flags:
  assumes "\<forall>ke \<in> set ents. \<not> disableGizmos (snd ke)"
    and "ke \<in> set (disable_ground_gizmos gid ents)"
  shows "disableGizmos (snd ke) = (\<exists>c \<in> set (be_components (snd ke)). Some c = gid)"
proof -
  from assms(2) obtain ke0 where m: "ke0 \<in> set ents" and
    k: "ke = (fst ke0,
              if \<exists>c \<in> set (be_components (snd ke0)). Some c = gid
              then (snd ke0) \<lparr> disableGizmos := True \<rparr> else snd ke0)"
    by (auto simp: disable_ground_gizmos_def)
  from assms(1) m have "\<not> disableGizmos (snd ke0)" by blast
  then show ?thesis unfolding k by (cases "\<exists>c \<in> set (be_components (snd ke0)). Some c = gid") simp_all
qed

text \<open>
  Claim C5, as amended. After a forward translation that completes, if the reconciled asset
  table has an asset of category ground under one key only, and exactly one key of the
  component table holds a component (of any type) whose \<^verbatim>\<open>data.assetId\<close> is that key, then
  the entities that list this component key have \<^verbatim>\<open>disableGizmos\<close> true and all other
  entities have it false; the manifest's ground points at the asset and the component.
\<close>

theorem ground_gizmos_disabled:
  assumes "toBuilderFromStateDefinitionFormat env scene builderManifest = Inr (scene1, result)"
    and "(a, asset) \<in> set (scene_assets (manifest_scene result))"
    and "category asset = ''ground''"
    and "\<forall>kv \<in> set (scene_assets (manifest_scene result)).
           category (snd kv) = ''ground'' \<longrightarrow> fst kv = a"
    and "(cid, c) \<in> set (scene_components (manifest_scene result))"
    and "get_prop (bc_data c) ''assetId'' = JStr a"
    and "\<forall>kc \<in> set (scene_components (manifest_scene result)).
           get_prop (bc_data (snd kc)) ''assetId'' = JStr a \<longrightarrow> fst kc = cid"
  shows "(\<forall>ke \<in> set (scene_entities (manifest_scene result)).
            disableGizmos (snd ke) = (cid \<in> set (be_components (snd ke)))) \<and>
         (\<exists>g. ground (manifest_scene result) = Some g \<and>
               ground_assetId g = a \<and> ground_componentId g = cid)"
proof -
  from toBuilder_Inr[OF assms(1)] obtain st :: translation and newAssets found where
    run: "translate_entities env initial_translation scene = Inr (st, scene1)" and
    det: "detect_ground (builderComponents st)
       (remove_unused_assets (builderComponents st)
          (merge_assets newAssets (scene_assets (manifest_scene builderManifest))))
       (ground (manifest_scene builderManifest), None) = Inr found" and
    res: "result = builderManifest
        \<lparr> manifest_scene :=
            \<lparr> scene_id = scene_id (manifest_scene builderManifest),
              scene_entities = disable_ground_gizmos (snd found) (entities st),
              scene_components = builderComponents st,
              scene_assets = remove_unused_assets (builderComponents st)
                 (merge_assets newAssets (scene_assets (manifest_scene builderManifest))),
              metrics = metrics (manifest_scene builderManifest),
              limits = limits (manifest_scene builderManifest),
              ground = fst found \<rparr> \<rparr>"
    by blast
  let ?comps = "builderComponents st"
  let ?assets = "remove_unused_assets ?comps
          (merge_assets newAssets (scene_assets (manifest_scene builderManifest)))"
  have c: "scene_components (manifest_scene result) = ?comps"
    and a: "scene_assets (manifest_scene result) = ?assets"
    and e: "scene_entities (manifest_scene result) = disable_ground_gizmos (snd found) (entities st)"
    and g: "ground (manifest_scene result) = fst found"
    by (simp_all add: res)
  have one: "\<forall>kc \<in> set ?comps. get_prop (bc_data (snd kc)) ''assetId'' = JStr a \<longrightarrow> fst kc = cid"
    using assms(7) unfolding c .
  have some: "\<exists>kc \<in> set ?comps. get_prop (bc_data (snd kc)) ''assetId'' = JStr a"
    using assms(5,6) unfolding c by force
  have grounds: "\<forall>kv \<in> set ?assets. category (snd kv) = ''ground'' \<longrightarrow> fst kv = a"
    using assms(4) unfolding a .
  have ex: "\<exists>kv \<in> set ?assets. category (snd kv) = ''ground''"
    using assms(2,3) unfolding a by force
  from detect_ground_unique[OF one some grounds det] ex
  have gid: "snd found = Some cid"
    and gr: "\<exists>g. fst found = Some g \<and> ground_assetId g = a \<and> ground_componentId g = cid"
    by simp_all
  have "\<forall>ke \<in> set (entities initial_translation). \<not> disableGizmos (snd ke)"
    by (simp add: initial_translation_def)
  from translate_entities_gizmos[OF this run]
  have clean: "\<forall>ke \<in> set (entities st). \<not> disableGizmos (snd ke)" .
  have "\<forall>ke \<in> set (scene_entities (manifest_scene result)).
            disableGizmos (snd ke) = (cid \<in> set (be_components (snd ke)))"
    unfolding e using disable_ground_gizmos_flags[OF clean] gid by auto
  with gr g show ?thesis by simp
qed


lemma ground_run:
  "toBuilderFromStateDefinitionFormat example_env ground_scene example_manifest
     = Inr (ground_scene, ground_result)"
  by code_simp

lemma shared_ground_run:
  "toBuilderFromStateDefinitionFormat example_env shared_ground_scene example_manifest
     = Inr (shared_ground_scene, shared_ground_result)"
  by code_simp

theorem ground_gizmos_disabled_witness:
  "toBuilderFromStateDefinitionFormat example_env ground_scene example_manifest
     = Inr (ground_scene, ground_result) \<and>
   map (\<lambda>ke. (fst ke, disableGizmos (snd ke) = (''c0'' \<in> set (be_components (snd ke)))))
     (scene_entities (manifest_scene ground_result)) = [(''E1'', True), (''E2'', True)] \<and>
   ground (manifest_scene ground_result)
     = Some \<lparr> ground_assetId = ''g1'', ground_componentId = ''c0'' \<rparr>"
proof -
  have a: "(''g1'', \<lparr> asset_name = ''Grass Floor'', category = ''ground'' \<rparr>)
             \<in> set (scene_assets (manifest_scene ground_result))"
    and b: "category \<lparr> asset_name = ''Grass Floor'', category = ''ground'' \<rparr> = ''ground''"
    and c: "\<forall>kv \<in> set (scene_assets (manifest_scene ground_result)).
           category (snd kv) = ''ground'' \<longrightarrow> fst kv = ''g1''"
    and d: "(''c0'', \<lparr> bc_id = ''c0'', bc_type = ''GLTFShape'', bc_data = [(''assetId'', JStr ''g1'')] \<rparr>)
             \<in> set (scene_components (manifest_scene ground_result))"
    and e: "get_prop (bc_data \<lparr> bc_id = ''c0'', bc_type = ''GLTFShape'',
                                 bc_data = [(''assetId'', JStr ''g1'')] \<rparr>) ''assetId'' = JStr ''g1''"
    and f: "\<forall>kc \<in> set (scene_components (manifest_scene ground_result)).
           get_prop (bc_data (snd kc)) ''assetId'' = JStr ''g1'' \<longrightarrow> fst kc = ''c0''"
    by (simp_all add: ground_result_def get_prop_def)
  from ground_gizmos_disabled [OF ground_run a b c d e f]
  have flags: "\<forall>ke \<in> set (scene_entities (manifest_scene ground_result)).
            disableGizmos (snd ke) = (''c0'' \<in> set (be_components (snd ke)))"
    and g: "\<exists>g. ground (manifest_scene ground_result) = Some g \<and>
               ground_assetId g = ''g1'' \<and> ground_componentId g = ''c0''"
    by blast+
  have ents: "map fst (scene_entities (manifest_scene ground_result)) = [''E1'', ''E2'']"
    by (simp add: ground_result_def)
  from flags have "map (\<lambda>ke. (fst ke, disableGizmos (snd ke) = (''c0'' \<in> set (be_components (snd ke)))))
     (scene_entities (manifest_scene ground_result))
     = map (\<lambda>ke. (fst ke, True)) (scene_entities (manifest_scene ground_result))"
    by (intro map_cong) simp_all
  also have "\<dots> = [(''E1'', True), (''E2'', True)]"
    by (simp add: ground_result_def)
  finally have m: "map (\<lambda>ke. (fst ke, disableGizmos (snd ke) = (''c0'' \<in> set (be_components (snd ke)))))
     (scene_entities (manifest_scene ground_result)) = [(''E1'', True), (''E2'', True)]" .
  from g have "ground (manifest_scene ground_result)
     = Some \<lparr> ground_assetId = ''g1'', ground_componentId = ''c0'' \<rparr>"
    by (cases "ground (manifest_scene ground_result)") auto
  with m ground_run show ?thesis by simp
qed

text \<open>
  The ground asset \<^verbatim>\<open>g1\<close> is referenced by exactly one GLTFShape component, \<^verbatim>\<open>c0\<close>, and
  by a Script component, \<^verbatim>\<open>c1\<close>. The scan takes the last component with the asset id
  whatever its type: the entity listing \<^verbatim>\<open>c0\<close> keeps its gizmos and the other one loses them.
\<close>

theorem ground_gizmos_counterexample:
  "toBuilderFromStateDefinitionFormat example_env shared_ground_scene example_manifest
     = Inr (shared_ground_scene, shared_ground_result) \<and>
   scene_assets (manifest_scene shared_ground_result)
     = [(''g1'', \<lparr> asset_name = ''Grass Floor'', category = ''ground'' \<rparr>)] \<and>
   scene_components (manifest_scene shared_ground_result)
     = [(''c0'', \<lparr> bc_id = ''c0'', bc_type = ''GLTFShape'',
                   bc_data = [(''assetId'', JStr ''g1'')] \<rparr>),
        (''c1'', \<lparr> bc_id = ''c1'', bc_type = ''Script'',
                   bc_data = [(''assetId'', JStr ''g1'')] \<rparr>)] \<and>
   scene_entities (manifest_scene shared_ground_result)
     = [(''E1'', \<lparr> be_id = ''E1'', be_components = [''c0''], disableGizmos = False,
                   be_name = ''grassFloor'' \<rparr>),
        (''E2'', \<lparr> be_id = ''E2'', be_components = [''c1''], disableGizmos = True,
                   be_name = ''E2'' \<rparr>)]"
  by (simp add: shared_ground_run) (simp add: shared_ground_result_def)

subsection \<open>Forward translation: names from GLTFShape assets\<close>

lemma unique_name_spec_least:
  "\<exists>j \<ge> k. getUniqueNameForGLTF_spec names base k = suffixed_name base j \<and>
      suffixed_name base j \<notin> set names \<and>
      (\<forall>i. k \<le> i \<and> i < j \<longrightarrow> suffixed_name base i \<in> set names)"
proof (induction names base k rule: getUniqueNameForGLTF_spec.induct)
  case (1 names base k)
  show ?case
  proof (cases "suffixed_name base k \<in> set names")
    case False
    then have "getUniqueNameForGLTF_spec names base k = suffixed_name base k"
      by (subst getUniqueNameForGLTF_spec.simps) simp
    with False show ?thesis by (intro exI[of _ k]) auto
  next
    case True
    from "1.IH"[OF True] obtain j where j: "Suc k \<le> j"
      and r: "getUniqueNameForGLTF_spec names base (Suc k) = suffixed_name base j"
      and f: "suffixed_name base j \<notin> set names"
      and b: "\<forall>i. Suc k \<le> i \<and> i < j \<longrightarrow> suffixed_name base i \<in> set names"
      by blast
    from True r have "getUniqueNameForGLTF_spec names base k = suffixed_name base j"
      by (subst getUniqueNameForGLTF_spec.simps) simp
    moreover have "\<forall>i. k \<le> i \<and> i < j \<longrightarrow> suffixed_name base i \<in> set names"
    proof (intro allI impI)
      fix i assume "k \<le> i \<and> i < j"
      then have "i = k \<or> (Suc k \<le> i \<and> i < j)" by arith
      with True b show "suffixed_name base i \<in> set names" by blast
    qed
    moreover from j have "k \<le> j" by simp
    ultimately show ?thesis using f by blast
  qed
qed

lemma fold_last_assignment:
  "xs \<noteq> [] \<Longrightarrow> fold (\<lambda>x _. f x) xs a = f (last xs)"
  by (induction xs arbitrary: a) auto

lemma gltf_entityName_last:
  "assets \<noteq> [] \<Longrightarrow>
   gltf_entityName env names assets name0 =
     getUniqueNameForGLTF env names (camelize env (asset_name (snd (last assets)))) 1"
  unfolding gltf_entityName_def by (rule fold_last_assignment)

lemma translate_component_gltf:
  assumes "toHumanReadableType env (fst component) = ''GLTFShape''"
    and "translate_component env st component = Inr (st1, written)"
  shows "\<exists>reply. getAssets env [get_prop (snd component) ''assetId''] = Inr reply \<and>
           entityName st1 = gltf_entityName env (gltfNames st) reply (entityName st)"
  using assms
  by (auto simp: translate_component_def Let_def split: sum.splits)

lemma translate_component_names:
  "translate_component env st c = Inr (st1, c1) \<Longrightarrow> gltfNames st1 = gltfNames st"
  by (auto simp: translate_component_def Let_def split: sum.splits if_splits)

lemma translate_components_names:
  "translate_components env st cs = Inr (st1, cs1) \<Longrightarrow> gltfNames st1 = gltfNames st"
proof (induction cs arbitrary: st st1 cs1)
  case Nil
  then show ?case by simp
next
  case (Cons c cs)
  from Cons.prems obtain sa ca sb cb where
    a: "translate_component env st c = Inr (sa, ca)" and
    b: "translate_components env sa cs = Inr (sb, cb)" and e: "st1 = sb"
    by (auto split: sum.splits prod.splits)
  from Cons.IH[OF b] translate_component_names[OF a] e show ?case by simp
qed

lemma translate_entity_names:
  assumes "translate_entity env st e = Inr (st1, e1)"
  shows "\<exists>sa mapped.
           translate_components env (st \<lparr> entityName := fst e, builderComponentsIds := [] \<rparr>) (snd e)
             = Inr (sa, mapped) \<and>
           gltfNames sa = gltfNames st \<and>
           gltfNames st1 = gltfNames st @ [entityName sa] \<and>
           (\<exists>be. map_of (entities st1) (fst e) = Some be \<and> be_name be = entityName sa)"
proof -
  from assms obtain sa mapped where
    a: "translate_components env (st \<lparr> entityName := fst e, builderComponentsIds := [] \<rparr>) (snd e)
          = Inr (sa, mapped)" and
    s: "st1 = sa \<lparr> gltfNames := gltfNames sa @ [entityName sa],
                   entities := AList.update (fst e)
           \<lparr> be_id = fst e, be_components = builderComponentsIds sa, disableGizmos = False,
             be_name = entityName sa \<rparr> (entities sa) \<rparr>"
    by (auto simp: translate_entity_def Let_def split: sum.splits prod.splits)
  from translate_components_names[OF a] have n: "gltfNames sa = gltfNames st" by simp
  from s n have "gltfNames st1 = gltfNames st @ [entityName sa]" by simp
  moreover from s have "\<exists>be. map_of (entities st1) (fst e) = Some be \<and> be_name be = entityName sa"
    by (simp add: update_conv')
  ultimately show ?thesis using a n by blast
qed

text \<open>
  Claim C6. With \<^verbatim>\<open>getUniqueNameForGLTF\<close> as the specification describes it, the step of
  the component loop on a GLTFShape component leaves the entity name as it was when the
  catalog returns nothing, and otherwise sets it to the camel-cased catalog name of the
  last returned asset with the lowest suffix, from 1 (the bare name) upwards, that is not
  among the names assigned so far; the new name is none of them. The names assigned so far
  do not change inside an entity, and every entity step adds the entity's final name to
  them. The catalog name Tree gives tree for the first entity and tree2 for the second.
\<close>

theorem gltf_names_uniquified:
  assumes "getUniqueNameForGLTF env = getUniqueNameForGLTF_spec"
    and "toHumanReadableType env (fst component) = ''GLTFShape''"
    and "translate_component env st component = Inr (st1, written)"
  shows
    "(\<exists>reply. getAssets env [get_prop (snd component) ''assetId''] = Inr reply \<and>
        (reply = [] \<longrightarrow> entityName st1 = entityName st) \<and>
        (reply \<noteq> [] \<longrightarrow>
           (\<exists>k \<ge> 1.
              entityName st1 = suffixed_name (camelize env (asset_name (snd (last reply)))) k \<and>
              (\<forall>i. 1 \<le> i \<and> i < k \<longrightarrow>
                 suffixed_name (camelize env (asset_name (snd (last reply)))) i \<in> set (gltfNames st)) \<and>
              entityName st1 \<notin> set (gltfNames st)))) \<and>
     gltfNames st1 = gltfNames st \<and>
     (translate_entity env sa entity = Inr (sb, entity1) \<longrightarrow>
        (\<exists>sc mapped.
           translate_components env (sa \<lparr> entityName := fst entity, builderComponentsIds := [] \<rparr>)
             (snd entity) = Inr (sc, mapped) \<and>
           gltfNames sc = gltfNames sa \<and>
           gltfNames sb = gltfNames sa @ [entityName sc] \<and>
           (\<exists>be. map_of (entities sb) (fst entity) = Some be \<and> be_name be = entityName sc))) \<and>
     camelize_spec ''Tree'' = ''tree'' \<and>
     suffixed_name ''tree'' 1 = ''tree'' \<and> suffixed_name ''tree'' 2 = ''tree2''"
proof (intro conjI impI)
  from translate_component_gltf[OF assms(2,3)] obtain reply where
    r: "getAssets env [get_prop (snd component) ''assetId''] = Inr reply" and
    n: "entityName st1 = gltf_entityName env (gltfNames st) reply (entityName st)"
    by blast
  have e: "reply = [] \<longrightarrow> entityName st1 = entityName st"
    using n by (simp add: gltf_entityName_def)
  have f: "\<exists>k \<ge> 1.
              entityName st1 = suffixed_name (camelize env (asset_name (snd (last reply)))) k \<and>
              (\<forall>i. 1 \<le> i \<and> i < k \<longrightarrow>
                 suffixed_name (camelize env (asset_name (snd (last reply)))) i \<in> set (gltfNames st)) \<and>
              entityName st1 \<notin> set (gltfNames st)" if "reply \<noteq> []"
  proof -
    let ?base = "camelize env (asset_name (snd (last reply)))"
    from that n assms(1) have "entityName st1 = getUniqueNameForGLTF_spec (gltfNames st) ?base 1"
      by (simp add: gltf_entityName_last)
    with unique_name_spec_least[of 1 "gltfNames st" ?base] show ?thesis by auto
  qed
  from r e f show "\<exists>reply. getAssets env [get_prop (snd component) ''assetId''] = Inr reply \<and>
        (reply = [] \<longrightarrow> entityName st1 = entityName st) \<and>
        (reply \<noteq> [] \<longrightarrow>
           (\<exists>k \<ge> 1.
              entityName st1 = suffixed_name (camelize env (asset_name (snd (last reply)))) k \<and>
              (\<forall>i. 1 \<le> i \<and> i < k \<longrightarrow>
                 suffixed_name (camelize env (asset_name (snd (last reply)))) i \<in> set (gltfNames st)) \<and>
              entityName st1 \<notin> set (gltfNames st)))"
    by blast
next
  show "gltfNames st1 = gltfNames st" using assms(3) by (rule translate_component_names)
next
  assume "translate_entity env sa entity = Inr (sb, entity1)"
  then show "\<exists>sc mapped.
           translate_components env (sa \<lparr> entityName := fst entity, builderComponentsIds := [] \<rparr>)
             (snd entity) = Inr (sc, mapped) \<and>
           gltfNames sc = gltfNames sa \<and>
           gltfNames sb = gltfNames sa @ [entityName sc] \<and>
           (\<exists>be. map_of (entities sb) (fst entity) = Some be \<and> be_name be = entityName sc)"
    by (rule translate_entity_names)
next
  show "camelize_spec ''Tree'' = ''tree''" by code_simp
  show "suffixed_name ''tree'' 1 = ''tree''" by code_simp
  show "suffixed_name ''tree'' 2 = ''tree2''" by code_simp
qed


lemma second_tree_step:
  "translate_component example_env second_tree_start (2, [(''assetId'', JStr ''a1'')])
     = Inr (second_tree_named, (2, [(''assetId'', JStr ''a1'')]))"
  by code_simp

lemma first_tree_entity:
  "translate_entity example_env initial_translation (''E1'', [(2, [(''assetId'', JStr ''a1'')])])
     = Inr (second_tree_start \<lparr> entityName := ''tree'', builderComponentsIds := [''c0''] \<rparr>,
            (''E1'', [(2, [(''assetId'', JStr ''a1'')])]))"
  by code_simp

theorem gltf_names_uniquified_witness:
  "toBuilderFromStateDefinitionFormat example_env two_tree_scene example_manifest
     = Inr (two_tree_scene, two_tree_result) \<and>
   map (\<lambda>ke. be_name (snd ke)) (scene_entities (manifest_scene two_tree_result))
     = [''tree'', ''tree2''] \<and>
   translate_component example_env second_tree_start (2, [(''assetId'', JStr ''a1'')])
     = Inr (second_tree_named, (2, [(''assetId'', JStr ''a1'')])) \<and>
   entityName second_tree_named = ''tree2'' \<and>
   entityName second_tree_named \<notin> set (gltfNames second_tree_start) \<and>
   gltfNames (second_tree_start \<lparr> entityName := ''tree'', builderComponentsIds := [''c0''] \<rparr>)
     = gltfNames initial_translation @ [''tree'']"
proof -
  have u: "getUniqueNameForGLTF example_env = getUniqueNameForGLTF_spec"
    and t: "toHumanReadableType example_env (fst (2 :: int, [(''assetId'', JStr ''a1'')])) = ''GLTFShape''"
    by (simp_all add: example_env_def example_toHumanReadableType_def)
  have reply: "getAssets example_env [get_prop (snd (2 :: int, [(''assetId'', JStr ''a1'')])) ''assetId'']
      = Inr [(''a1'', \<lparr> asset_name = ''Tree'', category = ''decorations'' \<rparr>)]"
    by (simp add: example_env_def example_catalog_def get_prop_def)
  note inst = gltf_names_uniquified [OF u t second_tree_step,
      of initial_translation "(''E1'', [(2, [(''assetId'', JStr ''a1'')])])"
         "second_tree_start \<lparr> entityName := ''tree'', builderComponentsIds := [''c0''] \<rparr>"
         "(''E1'', [(2, [(''assetId'', JStr ''a1'')])])"]
  from inst have "\<exists>r. getAssets example_env
                 [get_prop (snd (2 :: int, [(''assetId'', JStr ''a1'')])) ''assetId''] = Inr r \<and>
        (r = [] \<longrightarrow> entityName second_tree_named = entityName second_tree_start) \<and>
        (r \<noteq> [] \<longrightarrow>
           (\<exists>k \<ge> 1.
              entityName second_tree_named
                = suffixed_name (camelize example_env (asset_name (snd (last r)))) k \<and>
              (\<forall>i. 1 \<le> i \<and> i < k \<longrightarrow>
                 suffixed_name (camelize example_env (asset_name (snd (last r)))) i
                   \<in> set (gltfNames second_tree_start)) \<and>
              entityName second_tree_named \<notin> set (gltfNames second_tree_start)))"
    by (rule conjunct1)
  then have fresh: "entityName second_tree_named \<notin> set (gltfNames second_tree_start)"
  proof (elim exE conjE)
    fix r
    assume g: "getAssets example_env
                 [get_prop (snd (2 :: int, [(''assetId'', JStr ''a1'')])) ''assetId''] = Inr r"
    assume imp: "r \<noteq> [] \<longrightarrow>
           (\<exists>k \<ge> 1.
              entityName second_tree_named
                = suffixed_name (camelize example_env (asset_name (snd (last r)))) k \<and>
              (\<forall>i. 1 \<le> i \<and> i < k \<longrightarrow>
                 suffixed_name (camelize example_env (asset_name (snd (last r)))) i
                   \<in> set (gltfNames second_tree_start)) \<and>
              entityName second_tree_named \<notin> set (gltfNames second_tree_start))"
    from g reply have "r \<noteq> []" by auto
    with imp show ?thesis by blast
  qed
  from inst have "translate_entity example_env initial_translation
        (''E1'', [(2, [(''assetId'', JStr ''a1'')])])
      = Inr (second_tree_start \<lparr> entityName := ''tree'', builderComponentsIds := [''c0''] \<rparr>,
             (''E1'', [(2, [(''assetId'', JStr ''a1'')])])) \<longrightarrow>
     (\<exists>sc mapped.
           translate_components example_env
             (initial_translation \<lparr> entityName := fst (''E1'', [(2 :: int, [(''assetId'', JStr ''a1'')])]),
                                   builderComponentsIds := [] \<rparr>)
             (snd (''E1'', [(2, [(''assetId'', JStr ''a1'')])])) = Inr (sc, mapped) \<and>
           gltfNames sc = gltfNames initial_translation \<and>
           gltfNames (second_tree_start \<lparr> entityName := ''tree'', builderComponentsIds := [''c0''] \<rparr>)
             = gltfNames initial_translation @ [entityName sc] \<and>
           (\<exists>be. map_of (entities (second_tree_start \<lparr> entityName := ''tree'',
                                       builderComponentsIds := [''c0''] \<rparr>))
                        (fst (''E1'', [(2 :: int, [(''assetId'', JStr ''a1'')])])) = Some be \<and>
                 be_name be = entityName sc))"
    by (elim conjE)
  with first_tree_entity
  have "\<exists>sc mapped.
           translate_components example_env
             (initial_translation \<lparr> entityName := fst (''E1'', [(2 :: int, [(''assetId'', JStr ''a1'')])]),
                                   builderComponentsIds := [] \<rparr>)
             (snd (''E1'', [(2, [(''assetId'', JStr ''a1'')])])) = Inr (sc, mapped) \<and>
           gltfNames sc = gltfNames initial_translation \<and>
           gltfNames (second_tree_start \<lparr> entityName := ''tree'', builderComponentsIds := [''c0''] \<rparr>)
             = gltfNames initial_translation @ [entityName sc] \<and>
           (\<exists>be. map_of (entities (second_tree_start \<lparr> entityName := ''tree'',
                                       builderComponentsIds := [''c0''] \<rparr>))
                        (fst (''E1'', [(2 :: int, [(''assetId'', JStr ''a1'')])])) = Some be \<and>
                 be_name be = entityName sc)"
    by (rule rev_mp)
  then have names: "gltfNames (second_tree_start \<lparr> entityName := ''tree'', builderComponentsIds := [''c0''] \<rparr>)
     = gltfNames initial_translation @ [''tree'']"
    by (auto simp: second_tree_start_def)
  have "map (\<lambda>ke. be_name (snd ke)) (scene_entities (manifest_scene two_tree_result))
     = [''tree'', ''tree2'']"
    by (simp add: two_tree_result_def)
  moreover have "entityName second_tree_named = ''tree2''"
    by (simp add: second_tree_named_def)
  ultimately show ?thesis using two_tree_run second_tree_step fresh names by simp
qed


subsection \<open>What the translations write into their inputs\<close>



























lemma name_written_src: "name_written a b \<Longrightarrow> hasOwnProperty b ''src'' = hasOwnProperty a ''src''"
  by (simp add: name_written_def hasOwnProperty_def)



lemma table_progress_keys:
  "table_progress V comps0 comps \<Longrightarrow> (map_of comps k = None) = (map_of comps0 k = None)"
  by (metis map_of_eq_None_iff set_map table_progress_def)

lemma table_progress_lookup:
  assumes "table_progress V comps0 comps" and "map_of comps k = Some bc"
  obtains bc0 where "map_of comps0 k = Some bc0" and "entry_progress V k bc0 bc"
proof -
  have "map_of comps0 k \<noteq> None"
    using table_progress_keys[OF assms(1), of k] assms(2) by simp
  then obtain bc0 where b: "map_of comps0 k = Some bc0" by blast
  with assms(1) obtain bc' where "map_of comps k = Some bc'" and "entry_progress V k bc0 bc'"
    unfolding table_progress_def by blast
  with assms(2) b that show thesis by simp
qed












lemma name_written_get:
  "name_written a b \<Longrightarrow> p \<noteq> ''value'' \<Longrightarrow> p \<noteq> ''builderValue'' \<Longrightarrow> get_prop b p = get_prop a p"
  by (simp add: name_written_def get_prop_def)


lemma entry_progress_shimmed:
  assumes e: "entry_progress V k bc0 bc" and app: "shim_applies bc0" and v: "k \<in> V"
  shows "\<exists>url. get_prop (bc_data bc0) ''url'' = JStr url \<and>
           get_prop (bc_data bc) ''src'' = JStr url \<and>
           get_prop (bc_data bc) ''assetId'' = JStr (nft_assetId url) \<and>
           get_prop (bc_data bc) ''color'' = default_color \<and>
           get_prop (bc_data bc) ''style'' = JNum 0"
proof -
  from e app v have src: "hasOwnProperty (bc_data bc) ''src''"
    by (simp add: entry_progress_def shim_applies_def)
  have "\<not> name_written (bc_data bc0) (bc_data bc)"
  proof
    assume "name_written (bc_data bc0) (bc_data bc)"
    from name_written_src[OF this] src app show False by (simp add: shim_applies_def)
  qed
  with e obtain shimmed where sh: "nft_shim (bc_data bc0) = Inr shimmed"
    and nw: "name_written shimmed (bc_data bc)"
    by (auto simp: entry_progress_def)
  from nft_shim_fields[OF sh] obtain url where
    "get_prop (bc_data bc0) ''url'' = JStr url" "get_prop shimmed ''src'' = JStr url"
    "get_prop shimmed ''assetId'' = JStr (nft_assetId url)"
    "get_prop shimmed ''color'' = default_color" "get_prop shimmed ''style'' = JNum 0"
    by blast
  then show ?thesis
    using name_written_get[OF nw] by (intro exI[of _ url]) simp
qed































end
